theory Spec2Isabelle
  imports Main "HOL-Library.Char_ord"
begin

section \<open>Errors\<close>

text \<open>
  Go's \<open>error\<close> values as the storage bucket resource sees them.
  \<^item> \<open>AwsErr code message status\<close> is an \<open>awserr.Error\<close>; it is also an
    \<open>awserr.RequestFailure\<close> exactly when an HTTP status code is present.
  \<^item> \<open>GrpcStatus code message\<close> is an error carrying a gRPC status
    (\<open>codes.NotFound\<close> is 5, \<open>codes.PermissionDenied\<close> is 7).
  \<^item> \<open>Errorf format args\<close> is the value of \<open>fmt.Errorf(format, args...)\<close>; an argument
    is a string or an error. The formatted text is never inspected by the code, so it is
    kept as the format with its arguments.
  An \<open>error\<close> variable is a \<open>go_error option\<close>, \<open>None\<close> being \<open>nil\<close>.
\<close>

datatype go_error =
    AwsErr string string "nat option"
  | GrpcStatus nat string
  | Errorf string "(string + go_error) list"

definition codes_NotFound :: nat where
  "codes_NotFound = 5"

definition codes_PermissionDenied :: nat where
  "codes_PermissionDenied = 7"

fun has_prefix :: "string \<Rightarrow> string \<Rightarrow> bool" where
  "has_prefix s [] = True"
| "has_prefix [] (p # ps) = False"
| "has_prefix (c # s) (p # ps) = (c = p \<and> has_prefix s ps)"

text \<open>\<open>strings.Contains(s, substr)\<close>.\<close>

fun strings_Contains :: "string \<Rightarrow> string \<Rightarrow> bool" where
  "strings_Contains [] substr = (substr = [])"
| "strings_Contains (c # s) substr = (has_prefix (c # s) substr \<or> strings_Contains s substr)"

text \<open>
  \<open>isAWSErr\<close>: the error is an \<open>awserr.Error\<close>, its code is \<open>code\<close> and its message
  contains \<open>message\<close>.
\<close>

fun isAWSErr :: "go_error option \<Rightarrow> string \<Rightarrow> string \<Rightarrow> bool" where
  "isAWSErr (Some (AwsErr c m st)) code message = (c = code \<and> strings_Contains m message)"
| "isAWSErr err code message = False"

text \<open>
  Modelled from the spec: \<open>isStatusWithCode\<close> is defined elsewhere in the provider,
  outside the storage bucket resource; the spec speaks of "a gRPC NotFound status", so it
  holds exactly of an error that carries a gRPC status with the given code.
\<close>

fun isStatusWithCode :: "go_error option \<Rightarrow> nat \<Rightarrow> bool" where
  "isStatusWithCode (Some (GrpcStatus c m)) code = (c = code)"
| "isStatusWithCode err code = False"

text \<open>The type assertion \<open>err.(awserr.RequestFailure)\<close> followed by \<open>StatusCode() == 404\<close>.\<close>

fun isRequestFailure404 :: "go_error option \<Rightarrow> bool" where
  "isRequestFailure404 (Some (AwsErr c m (Some st))) = (st = 404)"
| "isRequestFailure404 err = False"

section \<open>Waiting for a condition to become stable\<close>

text \<open>
  \<open>waitConditionStable\<close> runs up to 12 rounds; a round calls \<open>check\<close> up to 10 times and
  ends at the first check that does not hold. \<open>check\<close> is a closure over the client, so
  it is a function on the state it acts on. \<open>time.Sleep\<close> has no part in the result.
  The inner loop yields \<open>Inl err\<close> when a check fails with an error (the function returns
  it at once) and \<open>Inr allOk\<close> otherwise.
\<close>

function subchecks_loop ::
  "('s \<Rightarrow> (bool \<times> go_error option) \<times> 's) \<Rightarrow> nat \<Rightarrow> 's \<Rightarrow> (go_error + bool) \<times> 's" where
  "subchecks_loop check subchecks s =
     (if subchecks < 10 then
        (case check s of
           ((ok, Some err), s') \<Rightarrow> (Inl err, s')
         | ((ok, None), s') \<Rightarrow>
             if ok then subchecks_loop check (Suc subchecks) s' else (Inr False, s'))
      else (Inr True, s))"
  by pat_completeness auto
termination
  by (relation "measure (\<lambda>(check, subchecks, s). 10 - subchecks)") auto

function checks_loop ::
  "('s \<Rightarrow> (bool \<times> go_error option) \<times> 's) \<Rightarrow> nat \<Rightarrow> 's \<Rightarrow> go_error option \<times> 's" where
  "checks_loop check checks s =
     (if checks < 12 then
        (case subchecks_loop check 0 s of
           (Inl err, s') \<Rightarrow> (Some err, s')
         | (Inr allOk, s') \<Rightarrow>
             if allOk then (None, s') else checks_loop check (Suc checks) s')
      else (Some (Errorf ''timeout exceeded'' []), s))"
  by pat_completeness auto
termination
  by (relation "measure (\<lambda>(check, checks, s). 12 - checks)") auto

definition waitConditionStable ::
  "('s \<Rightarrow> (bool \<times> go_error option) \<times> 's) \<Rightarrow> 's \<Rightarrow> go_error option \<times> 's" where
  "waitConditionStable check s = checks_loop check 0 s"

text \<open>
  To count and inspect the invocations of \<open>check\<close>, the closure is wrapped so that it
  also appends each outcome to a trace kept beside its state.
\<close>

definition traced ::
  "('s \<Rightarrow> (bool \<times> go_error option) \<times> 's) \<Rightarrow>
   's \<times> (bool \<times> go_error option) list \<Rightarrow>
   (bool \<times> go_error option) \<times> ('s \<times> (bool \<times> go_error option) list)" where
  "traced check = (\<lambda>(s, tr). case check s of (r, s') \<Rightarrow> (r, (s', tr @ [r])))"

section \<open>Bucket names\<close>

text \<open>
  The character class \<open>[0-9a-zA-Z-.]\<close> and the match of \<open>^[0-9a-zA-Z-.]+$\<close>: Go's
  \<open>$\<close> (no multi-line flag) matches at the end of the text only. \<open>len\<close> counts bytes,
  as \<open>length\<close> does on a \<open>string\<close> here.
\<close>

definition bucket_name_char :: "char \<Rightarrow> bool" where
  "bucket_name_char c =
     ((CHR ''0'' \<le> c \<and> c \<le> CHR ''9'') \<or> (CHR ''a'' \<le> c \<and> c \<le> CHR ''z'') \<or>
      (CHR ''A'' \<le> c \<and> c \<le> CHR ''Z'') \<or> c = CHR ''-'' \<or> c = CHR ''.'')"

definition bucket_name_regexp_MatchString :: "string \<Rightarrow> bool" where
  "bucket_name_regexp_MatchString v = (v \<noteq> [] \<and> list_all bucket_name_char v)"

definition validateS3BucketName :: "string \<Rightarrow> go_error option" where
  "validateS3BucketName v =
     (if length v > 63 then Some (Errorf ''%q must contain 63 characters at most'' [Inl v])
      else if length v < 3 then Some (Errorf ''%q must contain at least 3 characters'' [Inl v])
      else if \<not> bucket_name_regexp_MatchString v then
        Some (Errorf ''only alphanumeric characters, hyphens, and periods allowed in %q'' [Inl v])
      else None)"

section \<open>Tags\<close>

text \<open>
  An \<open>s3.Tag\<close> holds two string pointers; dereferencing a nil pointer panics, which the
  model returns as \<open>Inl NilPointerDereference\<close>. A Go \<open>map[string]string\<close> is a map
  \<open>string \<rightharpoonup> string\<close>, and a map-typed result is an option of it, \<open>None\<close> being the
  nil map.
\<close>

datatype panic = NilPointerDereference

record s3_Tag =
  Key :: "string option"
  Value :: "string option"

fun tagging_fill :: "s3_Tag list \<Rightarrow> (string \<rightharpoonup> string) \<Rightarrow> panic + (string \<rightharpoonup> string)" where
  "tagging_fill [] out = Inr out"
| "tagging_fill (tag # tags) out =
     (case (Key tag, Value tag) of
        (Some k, Some v) \<Rightarrow> tagging_fill tags (out(k \<mapsto> v))
      | _ \<Rightarrow> Inl NilPointerDereference)"

definition storageBucketTaggingNormalize ::
  "s3_Tag list \<Rightarrow> panic + (string \<rightharpoonup> string) option" where
  "storageBucketTaggingNormalize tags =
     (if length tags = 0 then Inr None
      else (case tagging_fill tags Map.empty of
              Inl p \<Rightarrow> Inl p
            | Inr out \<Rightarrow> Inr (Some out)))"

text \<open>
  \<open>storageBucketTaggingFromMap\<close> ranges over the map; Go leaves the order of a range over
  a map open, so the order in which the keys come is the argument \<open>keys\<close>, an enumeration
  of the map's keys.
\<close>

definition storageBucketTaggingFromMap ::
  "string list \<Rightarrow> (string \<rightharpoonup> string) \<Rightarrow> s3_Tag list" where
  "storageBucketTaggingFromMap keys tags =
     map (\<lambda>k. \<lparr>Key = Some k, Value = tags k\<rparr>) keys"

section \<open>Resource data\<close>

text \<open>
  \<open>schema.ResourceData\<close>: the identifier, the attribute values that \<open>d.Get\<close> reads and
  \<open>d.Set\<close> writes, what \<open>d.HasChange\<close> and \<open>d.IsNewResource\<close> answer, and the error
  \<open>d.Set\<close> answers for a key (a value that does not fit the schema). Attribute values
  are dynamically typed; \<open>TTags\<close> is a \<open>map[string]string\<close> value, nil or not.
\<close>

datatype tf_value =
    TNil
  | TBool bool
  | TInt int
  | TStr string
  | TList "tf_value list"
  | TMap "(string \<times> tf_value) list"
  | TTags "(string \<rightharpoonup> string) option"

record resource_data =
  rd_id :: string
  rd_attrs :: "string \<rightharpoonup> tf_value"
  rd_changed :: "string \<Rightarrow> bool"
  rd_is_new :: bool
  rd_set_error :: "string \<Rightarrow> go_error option"

definition d_Id :: "resource_data \<Rightarrow> string" where
  "d_Id d = rd_id d"

definition d_SetId :: "resource_data \<Rightarrow> string \<Rightarrow> resource_data" where
  "d_SetId d v = d\<lparr>rd_id := v\<rparr>"

definition d_Get :: "resource_data \<Rightarrow> string \<Rightarrow> tf_value" where
  "d_Get d k = (case rd_attrs d k of Some v \<Rightarrow> v | None \<Rightarrow> TNil)"

fun is_zero :: "tf_value \<Rightarrow> bool" where
  "is_zero TNil = True"
| "is_zero (TBool b) = (\<not> b)"
| "is_zero (TInt i) = (i = 0)"
| "is_zero (TStr s) = (s = [])"
| "is_zero (TList xs) = (xs = [])"
| "is_zero (TMap kvs) = (kvs = [])"
| "is_zero (TTags m) = (case m of None \<Rightarrow> True | Some f \<Rightarrow> f = Map.empty)"

text \<open>\<open>d.GetOk\<close>: the value, and whether it is set to something other than the zero value.\<close>

definition d_GetOk :: "resource_data \<Rightarrow> string \<Rightarrow> tf_value \<times> bool" where
  "d_GetOk d k = (d_Get d k, \<not> is_zero (d_Get d k))"

text \<open>
  The type assertions \<open>.(string)\<close>, \<open>.(bool)\<close> and \<open>.(int)\<close> on a value read with
  \<open>d.Get\<close>; the schema types the attribute, and an unset attribute reads as the zero
  value of its type.
\<close>

fun as_string :: "tf_value \<Rightarrow> string" where
  "as_string (TStr s) = s"
| "as_string v = []"

fun as_bool :: "tf_value \<Rightarrow> bool" where
  "as_bool (TBool b) = b"
| "as_bool v = False"

fun as_int :: "tf_value \<Rightarrow> int" where
  "as_int (TInt i) = i"
| "as_int v = 0"

definition d_Set :: "resource_data \<Rightarrow> string \<Rightarrow> tf_value \<Rightarrow> go_error option \<times> resource_data" where
  "d_Set d k v =
     (case rd_set_error d k of
        Some err \<Rightarrow> (Some err, d)
      | None \<Rightarrow> (None, d\<lparr>rd_attrs := (rd_attrs d)(k \<mapsto> v)\<rparr>))"

definition d_HasChange :: "resource_data \<Rightarrow> string \<Rightarrow> bool" where
  "d_HasChange d k = rd_changed d k"

definition d_IsNewResource :: "resource_data \<Rightarrow> bool" where
  "d_IsNewResource d = rd_is_new d"

text \<open>
  \<open>handleS3BucketNotFoundError\<close> yields its answer and the resource data, whose
  identifier it clears when the error is a not-found one.
\<close>

definition handleS3BucketNotFoundError ::
  "resource_data \<Rightarrow> go_error option \<Rightarrow> bool \<times> resource_data" where
  "handleS3BucketNotFoundError d err =
     (if isRequestFailure404 err \<or> isStatusWithCode err codes_NotFound
      then (True, d_SetId d [])
      else (False, d))"

section \<open>The storage service as seen by the client\<close>

text \<open>
  The calls that leave the process. The service is a state of type \<open>'w\<close> and one handler
  for each operation, taking the request and the state to the response and the next
  state; nothing is assumed of the handlers, so a statement about every environment is a
  statement about every sequence of responses. The world pairs the service state with the
  log of the calls made so far.
\<close>

record s3_ObjectIdentifier =
  oi_Key :: "string option"
  oi_VersionId :: "string option"

record s3_ListObjectVersionsOutput =
  DeleteMarkers :: "s3_ObjectIdentifier list"
  Versions :: "s3_ObjectIdentifier list"

record AnonymousAccessFlags =
  aaf_List :: "bool option"
  aaf_Read :: "bool option"
  aaf_ConfigRead :: "bool option"

record storage_CreateBucketRequest =
  cr_Name :: string
  cr_FolderId :: string
  cr_AnonymousAccessFlags :: "AnonymousAccessFlags option"
  cr_MaxSize :: int
  cr_DefaultStorageClass :: string
  cr_Acl :: "(string \<times> string) list"

record storage_UpdateBucketRequest =
  ur_Name :: string
  ur_DefaultStorageClass :: string
  ur_MaxSize :: int
  ur_AnonymousAccessFlags :: "AnonymousAccessFlags option"
  ur_UpdateMask :: "string list option"

record storage_Bucket =
  b_DefaultStorageClass :: string
  b_FolderId :: string
  b_MaxSize :: int
  b_AnonymousAccessFlags :: "AnonymousAccessFlags option"

record storage_HTTPSConfig =
  https_managed_by_certificate_manager :: bool
  https_CertificateId :: string

datatype api_call =
    S3 string string
  | S3_CreateBucket string string
  | S3_DeleteObjects string "s3_ObjectIdentifier list"
  | Storage_Create storage_CreateBucketRequest
  | Storage_Update storage_UpdateBucketRequest
  | Storage_SetHTTPSConfig string string
  | Storage_DeleteHTTPSConfig string
  | Storage_Get string
  | Storage_GetHTTPSConfig string

record 'w world =
  srv :: 'w
  calls :: "api_call list"

definition api :: "api_call \<Rightarrow> ('w \<Rightarrow> 'r \<times> 'w) \<Rightarrow> 'w world \<Rightarrow> 'r \<times> 'w world" where
  "api c h w = (case h (srv w) of (r, s') \<Rightarrow> (r, \<lparr>srv = s', calls = calls w @ [c]\<rparr>))"

text \<open>
  The environment of a call: the provider configuration (\<open>meta\<close>), the libraries and the
  service.
  \<^item> \<open>getS3Client_error\<close>: the error of \<open>getS3Client\<close>, if it fails;
  \<^item> \<open>retry_attempts m\<close>: how many further attempts fit into a \<open>resource.Retry\<close>
    time-out of \<open>m\<close> minutes;
  \<^item> \<open>unique_suffix\<close>: what \<open>resource.PrefixedUniqueId\<close> appends to the prefix;
  \<^item> \<open>url_Hostname\<close>: \<open>url.Parse\<close> followed by \<open>Hostname()\<close>;
  \<^item> \<open>json_Unmarshal\<close>, \<open>json_Marshal\<close>: \<open>encoding/json\<close> on values of type \<open>'j\<close>;
  \<^item> the handlers of the S3 client and of the storage API client. The S3 handlers
    answer the output together with the error, as the SDK does. An output that the
    code only copies field by field into an attribute value comes in that flattened form
    (\<open>s3_get\<close>, and \<open>s3_GetBucketWebsite\<close> with the error of \<open>normalizeRoutingRules\<close>
    in its place, if any). A handler of the storage API answers the error left after
    \<open>waitOperation\<close>.
  \<^item> \<open>updateHandler name\<close>: the update handler that the table in
    \<open>resourceYandexStorageBucketUpdateBasic\<close> gives for the property \<open>name\<close>. The
    handlers call the S3 client and write attributes with \<open>d.Set\<close>; none of them calls
    \<open>d.SetId\<close>. A handler therefore answers its error, the attributes it leaves and the
    world;
  \<^item> \<open>range_order\<close>: the order in which the Go runtime ranges over the keys of the
    map of change handlers in \<open>resourceYandexStorageBucketUpdateExtended\<close>.
\<close>

record ('w, 'j) env =
  getS3Client_error :: "go_error option"
  StorageEndpoint :: string
  retry_attempts :: "nat \<Rightarrow> nat"
  unique_suffix :: string
  url_Hostname :: "string \<Rightarrow> go_error + string"
  json_Unmarshal :: "string \<Rightarrow> go_error + 'j"
  json_Marshal :: "'j \<Rightarrow> string"
  s3_plain :: "string \<Rightarrow> string \<Rightarrow> 'w \<Rightarrow> go_error option \<times> 'w"
  s3_CreateBucket :: "string \<Rightarrow> string \<Rightarrow> 'w \<Rightarrow> go_error option \<times> 'w"
  s3_ListObjectVersions :: "string \<Rightarrow> 'w \<Rightarrow> (s3_ListObjectVersionsOutput \<times> go_error option) \<times> 'w"
  s3_DeleteObjects :: "string \<Rightarrow> s3_ObjectIdentifier list \<Rightarrow> 'w \<Rightarrow> go_error option \<times> 'w"
  s3_GetBucketPolicy :: "string \<Rightarrow> 'w \<Rightarrow> (string option \<times> go_error option) \<times> 'w"
  s3_GetBucketWebsite :: "string \<Rightarrow> 'w \<Rightarrow> ((go_error + tf_value) \<times> go_error option) \<times> 'w"
  s3_GetBucketTagging :: "string \<Rightarrow> 'w \<Rightarrow> (s3_Tag list \<times> go_error option) \<times> 'w"
  s3_get :: "string \<Rightarrow> string \<Rightarrow> 'w \<Rightarrow> (tf_value \<times> go_error option) \<times> 'w"
  storage_Create :: "storage_CreateBucketRequest \<Rightarrow> 'w \<Rightarrow> (go_error option \<times> go_error option) \<times> 'w"
  storage_Update :: "storage_UpdateBucketRequest \<Rightarrow> 'w \<Rightarrow> (go_error option \<times> (nat \<times> string) option) \<times> 'w"
  storage_SetHTTPSConfig :: "string \<Rightarrow> string \<Rightarrow> 'w \<Rightarrow> (go_error option \<times> (nat \<times> string) option) \<times> 'w"
  storage_DeleteHTTPSConfig :: "string \<Rightarrow> 'w \<Rightarrow> (go_error option \<times> (nat \<times> string) option) \<times> 'w"
  storage_Get :: "string \<Rightarrow> 'w \<Rightarrow> (go_error + storage_Bucket) \<times> 'w"
  storage_GetHTTPSConfig :: "string \<Rightarrow> 'w \<Rightarrow> (go_error + storage_HTTPSConfig) \<times> 'w"
  updateHandler :: "string \<Rightarrow> resource_data \<Rightarrow> 'w world \<Rightarrow>
                    go_error option \<times> (string \<rightharpoonup> tf_value) \<times> 'w world"
  range_order :: "string list"

text \<open>The calls of the S3 client, each entered in the log.\<close>

definition s3Client_HeadBucket :: "('w, 'j) env \<Rightarrow> string \<Rightarrow> 'w world \<Rightarrow> go_error option \<times> 'w world" where
  "s3Client_HeadBucket env bucket = api (S3 ''HeadBucket'' bucket) (s3_plain env ''HeadBucket'' bucket)"

definition s3Client_DeleteBucket :: "('w, 'j) env \<Rightarrow> string \<Rightarrow> 'w world \<Rightarrow> go_error option \<times> 'w world" where
  "s3Client_DeleteBucket env bucket = api (S3 ''DeleteBucket'' bucket) (s3_plain env ''DeleteBucket'' bucket)"

definition s3Client_CreateBucket ::
  "('w, 'j) env \<Rightarrow> string \<Rightarrow> string \<Rightarrow> 'w world \<Rightarrow> go_error option \<times> 'w world" where
  "s3Client_CreateBucket env bucket acl = api (S3_CreateBucket bucket acl) (s3_CreateBucket env bucket acl)"

definition s3Client_ListObjectVersions ::
  "('w, 'j) env \<Rightarrow> string \<Rightarrow> 'w world \<Rightarrow> (s3_ListObjectVersionsOutput \<times> go_error option) \<times> 'w world" where
  "s3Client_ListObjectVersions env bucket =
     api (S3 ''ListObjectVersions'' bucket) (s3_ListObjectVersions env bucket)"

definition s3Client_DeleteObjects ::
  "('w, 'j) env \<Rightarrow> string \<Rightarrow> s3_ObjectIdentifier list \<Rightarrow> 'w world \<Rightarrow> go_error option \<times> 'w world" where
  "s3Client_DeleteObjects env bucket objects =
     api (S3_DeleteObjects bucket objects) (s3_DeleteObjects env bucket objects)"

definition s3Client_GetBucketPolicy ::
  "('w, 'j) env \<Rightarrow> string \<Rightarrow> 'w world \<Rightarrow> (string option \<times> go_error option) \<times> 'w world" where
  "s3Client_GetBucketPolicy env bucket = api (S3 ''GetBucketPolicy'' bucket) (s3_GetBucketPolicy env bucket)"

definition s3Client_GetBucketWebsite ::
  "('w, 'j) env \<Rightarrow> string \<Rightarrow> 'w world \<Rightarrow> ((go_error + tf_value) \<times> go_error option) \<times> 'w world" where
  "s3Client_GetBucketWebsite env bucket = api (S3 ''GetBucketWebsite'' bucket) (s3_GetBucketWebsite env bucket)"

definition s3Client_GetBucketTagging ::
  "('w, 'j) env \<Rightarrow> string \<Rightarrow> 'w world \<Rightarrow> (s3_Tag list \<times> go_error option) \<times> 'w world" where
  "s3Client_GetBucketTagging env bucket = api (S3 ''GetBucketTagging'' bucket) (s3_GetBucketTagging env bucket)"

definition s3Client_get ::
  "('w, 'j) env \<Rightarrow> string \<Rightarrow> string \<Rightarrow> 'w world \<Rightarrow> (tf_value \<times> go_error option) \<times> 'w world" where
  "s3Client_get env operation bucket = api (S3 operation bucket) (s3_get env operation bucket)"

text \<open>The calls of the storage API client, with \<open>waitOperation\<close> on the operation.\<close>

definition bucketAPI_Create ::
  "('w, 'j) env \<Rightarrow> storage_CreateBucketRequest \<Rightarrow> 'w world \<Rightarrow> (go_error option \<times> go_error option) \<times> 'w world" where
  "bucketAPI_Create env request = api (Storage_Create request) (storage_Create env request)"

definition bucketAPI_Update ::
  "('w, 'j) env \<Rightarrow> storage_UpdateBucketRequest \<Rightarrow> 'w world \<Rightarrow>
   (go_error option \<times> (nat \<times> string) option) \<times> 'w world" where
  "bucketAPI_Update env request = api (Storage_Update request) (storage_Update env request)"

definition bucketAPI_SetHTTPSConfig ::
  "('w, 'j) env \<Rightarrow> string \<Rightarrow> string \<Rightarrow> 'w world \<Rightarrow> (go_error option \<times> (nat \<times> string) option) \<times> 'w world" where
  "bucketAPI_SetHTTPSConfig env name certificate =
     api (Storage_SetHTTPSConfig name certificate) (storage_SetHTTPSConfig env name certificate)"

definition bucketAPI_DeleteHTTPSConfig ::
  "('w, 'j) env \<Rightarrow> string \<Rightarrow> 'w world \<Rightarrow> (go_error option \<times> (nat \<times> string) option) \<times> 'w world" where
  "bucketAPI_DeleteHTTPSConfig env name = api (Storage_DeleteHTTPSConfig name) (storage_DeleteHTTPSConfig env name)"

definition bucketAPI_Get ::
  "('w, 'j) env \<Rightarrow> string \<Rightarrow> 'w world \<Rightarrow> (go_error + storage_Bucket) \<times> 'w world" where
  "bucketAPI_Get env name = api (Storage_Get name) (storage_Get env name)"

definition bucketAPI_GetHTTPSConfig ::
  "('w, 'j) env \<Rightarrow> string \<Rightarrow> 'w world \<Rightarrow> (go_error + storage_HTTPSConfig) \<times> 'w world" where
  "bucketAPI_GetHTTPSConfig env name = api (Storage_GetHTTPSConfig name) (storage_GetHTTPSConfig env name)"

text \<open>
  \<open>status.Error(codes.Code(opErr.Code), opErr.Message)\<close> on the error of a finished
  operation: gRPC makes no error of the code \<open>OK\<close>, which is 0.
\<close>

definition status_Error :: "nat \<Rightarrow> string \<Rightarrow> go_error option" where
  "status_Error code message = (if code = 0 then None else Some (GrpcStatus code message))"

section \<open>Retrying\<close>

text \<open>
  \<open>retryOnAwsCodes\<close> hands \<open>f\<close> to \<open>resource.Retry\<close> with a time-out of one minute: an
  \<open>awserr.Error\<close> with one of the codes is retryable, any other error is not. When the
  time is up the last error is returned. The first argument is the number of further
  attempts that the time-out leaves room for.
\<close>

fun has_aws_code :: "go_error \<Rightarrow> string list \<Rightarrow> bool" where
  "has_aws_code (AwsErr c m st) codes = (c \<in> set codes)"
| "has_aws_code err codes = False"

fun retryOnAwsCodes ::
  "nat \<Rightarrow> string list \<Rightarrow> ('s \<Rightarrow> ('a \<times> go_error option) \<times> 's) \<Rightarrow> 's \<Rightarrow> ('a \<times> go_error option) \<times> 's" where
  "retryOnAwsCodes 0 codes f s = f s"
| "retryOnAwsCodes (Suc n) codes f s =
     (case f s of
        ((resp, None), s') \<Rightarrow> ((resp, None), s')
      | ((resp, Some err), s') \<Rightarrow>
          if has_aws_code err codes then retryOnAwsCodes n codes f s'
          else ((resp, Some err), s'))"

definition retryFlakyS3Responses ::
  "('w, 'j) env \<Rightarrow> ('s \<Rightarrow> ('a \<times> go_error option) \<times> 's) \<Rightarrow> 's \<Rightarrow> ('a \<times> go_error option) \<times> 's" where
  "retryFlakyS3Responses env f =
     retryOnAwsCodes (retry_attempts env 1) [''NoSuchBucket'', ''AccessDenied'', ''Forbidden''] f"

text \<open>A call that answers an error only, as a call that answers an output of no interest.\<close>

definition no_output :: "('s \<Rightarrow> go_error option \<times> 's) \<Rightarrow> 's \<Rightarrow> (unit \<times> go_error option) \<times> 's" where
  "no_output f s = (case f s of (err, s') \<Rightarrow> (((), err), s'))"

section \<open>Delete\<close>

text \<open>
  The check that \<open>resourceYandexStorageBucketDelete\<close> hands to \<open>waitConditionStable\<close>:
  the bucket is gone when \<open>HeadBucket\<close> fails with status 404.
\<close>

definition bucket_gone_check ::
  "('w, 'j) env \<Rightarrow> string \<Rightarrow> 'w world \<Rightarrow> (bool \<times> go_error option) \<times> 'w world" where
  "bucket_gone_check env bucket w =
     (case s3Client_HeadBucket env bucket w of
        (err, w') \<Rightarrow> if isRequestFailure404 err then ((True, None), w') else ((False, err), w'))"

text \<open>
  \<open>resourceYandexStorageBucketDelete\<close> calls itself after it has deleted the listed
  object versions, with no counter. It is therefore a partial function: \<open>None\<close> is the run
  that does not return, \<open>Some\<close> holds the returned error with the resource data and the
  world it leaves.
\<close>

partial_function (option) resourceYandexStorageBucketDelete ::
  "('w, 'j) env \<Rightarrow> resource_data \<Rightarrow> 'w world \<Rightarrow> (go_error option \<times> resource_data \<times> 'w world) option" where
  "resourceYandexStorageBucketDelete env d w =
     (case getS3Client_error env of
        Some err \<Rightarrow> Some (Some (Errorf ''error getting storage client: %s'' [Inr err]), d, w)
      | None \<Rightarrow>
          (case retryOnAwsCodes (retry_attempts env 1) [''AccessDenied'', ''Forbidden'']
                  (no_output (s3Client_DeleteBucket env (d_Id d))) w of
             ((resp0, err), w1) \<Rightarrow>
               if isAWSErr err ''NoSuchBucket'' [] then Some (None, d, w1)
               else if isAWSErr err ''BucketNotEmpty'' [] \<and> as_bool (d_Get d ''force_destroy'') then
                 (case s3Client_ListObjectVersions env (as_string (d_Get d ''bucket'')) w1 of
                    ((resp, Some err1), w2) \<Rightarrow>
                      Some (Some (Errorf ''error listing Storage Bucket object versions: %s'' [Inr err1]), d, w2)
                  | ((resp, None), w2) \<Rightarrow>
                      (case s3Client_DeleteObjects env (as_string (d_Get d ''bucket''))
                              (DeleteMarkers resp @ Versions resp) w2 of
                         (Some err2, w3) \<Rightarrow>
                           Some (Some (Errorf ''error force_destroy deleting Storage Bucket (%s): %s''
                                         [Inl (d_Id d), Inr err2]), d, w3)
                       | (None, w3) \<Rightarrow> resourceYandexStorageBucketDelete env d w3))
               else
                 (case (if err = None then waitConditionStable (bucket_gone_check env (d_Id d)) w1
                        else (err, w1)) of
                    (Some err3, w4) \<Rightarrow>
                      Some (Some (Errorf ''error deleting Storage Bucket (%s): %s'' [Inl (d_Id d), Inr err3]), d, w4)
                  | (None, w4) \<Rightarrow> Some (None, d, w4))))"

section \<open>JSON strings and domain names\<close>

text \<open>
  \<open>NormalizeJsonString\<close> takes an \<open>interface{}\<close> that is nil or holds a string (its
  callers pass nothing else): \<open>None\<close> is nil. The error of \<open>json.Marshal\<close> is dropped by
  the code.
\<close>

definition NormalizeJsonString :: "('w, 'j) env \<Rightarrow> string option \<Rightarrow> go_error + string" where
  "NormalizeJsonString env jsonString =
     (case jsonString of
        None \<Rightarrow> Inr []
      | Some s \<Rightarrow>
          if s = [] then Inr []
          else (case json_Unmarshal env s of
                  Inl err \<Rightarrow> Inl err
                | Inr j \<Rightarrow> Inr (json_Marshal env j)))"

definition bucketDomainName :: "('w, 'j) env \<Rightarrow> string \<Rightarrow> string \<Rightarrow> go_error + string" where
  "bucketDomainName env bucket endpointURL =
     (case url_Hostname env
             (if \<not> strings_Contains endpointURL ''//'' then ''//'' @ endpointURL else endpointURL) of
        Inl err \<Rightarrow> Inl err
      | Inr hostname \<Rightarrow> Inr (bucket @ ''.'' @ hostname))"

record S3Website =
  Endpoint :: string
  Domain :: string

definition WebsiteDomainURL :: string where
  "WebsiteDomainURL = ''website.yandexcloud.net''"

definition WebsiteEndpoint :: "string \<Rightarrow> S3Website" where
  "WebsiteEndpoint bucket = \<lparr>Endpoint = bucket @ ''.'' @ WebsiteDomainURL, Domain = WebsiteDomainURL\<rparr>"

definition websiteEndpoint :: "resource_data \<Rightarrow> go_error + S3Website option" where
  "websiteEndpoint d =
     (if \<not> snd (d_GetOk d ''website'') then Inr None
      else Inr (Some (WebsiteEndpoint (as_string (d_Get d ''bucket'')))))"

section \<open>Read\<close>

text \<open>
  A call returns its error, the resource data and the world; a run that panics yields
  \<open>Inl\<close>. \<open>resourceYandexStorageBucketReadBasic\<close> is one long sequence of lookups, each
  with its own treatment of the error. The model cuts it at the lookups: each definition
  below is the function from that lookup to its end, \<open>bucketAWS\<close> being the identifier
  read at the start. They come last lookup first.
\<close>

type_synonym 'w result = "go_error option \<times> resource_data \<times> 'w world"

definition ReadBasic_tagging ::
  "('w, 'j) env \<Rightarrow> string \<Rightarrow> resource_data \<Rightarrow> 'w world \<Rightarrow> panic + 'w result" where
  "ReadBasic_tagging env bucketAWS d w =
     (case retryFlakyS3Responses env (s3Client_GetBucketTagging env bucketAWS) w of
        ((tags, Some err), w1) \<Rightarrow> Inr (Some (Errorf ''error getting S3 Bucket tags: %w'' [Inr err]), d, w1)
      | ((tags, None), w1) \<Rightarrow>
          (case storageBucketTaggingNormalize tags of
             Inl p \<Rightarrow> Inl p
           | Inr tagsNormalized \<Rightarrow>
               (case d_Set d ''tags'' (TTags tagsNormalized) of
                  (Some err, d1) \<Rightarrow> Inr (Some (Errorf ''error setting S3 Bucket tags: %w'' [Inr err]), d1, w1)
                | (None, d1) \<Rightarrow> Inr (None, d1, w1))))"

definition ReadBasic_encryption ::
  "('w, 'j) env \<Rightarrow> string \<Rightarrow> resource_data \<Rightarrow> 'w world \<Rightarrow> panic + 'w result" where
  "ReadBasic_encryption env bucketAWS d w =
     (case retryFlakyS3Responses env (s3Client_get env ''GetBucketEncryption'' bucketAWS) w of
        ((serverSideEncryptionConfiguration, err), w1) \<Rightarrow>
          (case (if isAWSErr err ''ServerSideEncryptionConfigurationNotFoundError''
                       ''encryption configuration was not found'' then None else err) of
             Some e \<Rightarrow> Inr (Some (Errorf ''error getting S3 Bucket encryption: %w'' [Inr e]), d, w1)
           | None \<Rightarrow>
               (case d_Set d ''server_side_encryption_configuration'' serverSideEncryptionConfiguration of
                  (Some e, d1) \<Rightarrow>
                    Inr (Some (Errorf ''error setting server_side_encryption_configuration: %s'' [Inr e]), d1, w1)
                | (None, d1) \<Rightarrow> ReadBasic_tagging env bucketAWS d1 w1)))"

definition ReadBasic_lifecycle ::
  "('w, 'j) env \<Rightarrow> string \<Rightarrow> resource_data \<Rightarrow> 'w world \<Rightarrow> panic + 'w result" where
  "ReadBasic_lifecycle env bucketAWS d w =
     (case retryFlakyS3Responses env (s3Client_get env ''GetBucketLifecycleConfiguration'' bucketAWS) w of
        ((lifecycleRules, err), w1) \<Rightarrow>
          (case (if isAWSErr err ''NoSuchLifecycleConfiguration'' [] then None else err) of
             Some e \<Rightarrow> Inr (Some e, d, w1)
           | None \<Rightarrow>
               (case d_Set d ''lifecycle_rule'' lifecycleRules of
                  (Some e, d1) \<Rightarrow> Inr (Some (Errorf ''error setting lifecycle_rule: %s'' [Inr e]), d1, w1)
                | (None, d1) \<Rightarrow> ReadBasic_encryption env bucketAWS d1 w1)))"

definition ReadBasic_logging ::
  "('w, 'j) env \<Rightarrow> string \<Rightarrow> resource_data \<Rightarrow> 'w world \<Rightarrow> panic + 'w result" where
  "ReadBasic_logging env bucketAWS d w =
     (case retryFlakyS3Responses env (s3Client_get env ''GetBucketLogging'' bucketAWS) w of
        ((lcl, Some e), w1) \<Rightarrow> Inr (Some (Errorf ''error getting S3 Bucket logging: %s'' [Inr e]), d, w1)
      | ((lcl, None), w1) \<Rightarrow>
          (case d_Set d ''logging'' lcl of
             (Some e, d1) \<Rightarrow> Inr (Some (Errorf ''error setting logging: %s'' [Inr e]), d1, w1)
           | (None, d1) \<Rightarrow> ReadBasic_lifecycle env bucketAWS d1 w1))"

text \<open>
  The object lock configuration is written from the output only when the lookup had no
  error; otherwise the nil slice is written.
\<close>

definition ReadBasic_object_lock ::
  "('w, 'j) env \<Rightarrow> string \<Rightarrow> resource_data \<Rightarrow> 'w world \<Rightarrow> panic + 'w result" where
  "ReadBasic_object_lock env bucketAWS d w =
     (case retryFlakyS3Responses env (s3Client_get env ''GetObjectLockConfiguration'' bucketAWS) w of
        ((olcl, err), w1) \<Rightarrow>
          (case (if isAWSErr err ''ObjectLockConfigurationNotFoundError'' [] \<or>
                    isAWSErr err ''AccessDenied'' [] then None else err) of
             Some e \<Rightarrow> Inr (Some e, d, w1)
           | None \<Rightarrow>
               (case d_Set d ''object_lock_configuration'' (if err = None then olcl else TNil) of
                  (Some e, d1) \<Rightarrow>
                    Inr (Some (Errorf ''error setting object lock configuration: %s'' [Inr e]), d1, w1)
                | (None, d1) \<Rightarrow> ReadBasic_logging env bucketAWS d1 w1)))"

definition ReadBasic_versioning ::
  "('w, 'j) env \<Rightarrow> string \<Rightarrow> resource_data \<Rightarrow> 'w world \<Rightarrow> panic + 'w result" where
  "ReadBasic_versioning env bucketAWS d w =
     (case retryFlakyS3Responses env (s3Client_get env ''GetBucketVersioning'' bucketAWS) w of
        ((vcl, Some e), w1) \<Rightarrow> Inr (Some e, d, w1)
      | ((vcl, None), w1) \<Rightarrow>
          (case d_Set d ''versioning'' vcl of
             (Some e, d1) \<Rightarrow> Inr (Some (Errorf ''error setting versioning: %s'' [Inr e]), d1, w1)
           | (None, d1) \<Rightarrow> ReadBasic_object_lock env bucketAWS d1 w1))"

text \<open>
  The type assertion \<open>err.(awserr.Error)\<close> with the code \<open>AccessDenied\<close> or \<open>Forbidden\<close>
  is \<open>has_aws_code\<close> on these two codes.
\<close>

definition ReadBasic_acl ::
  "('w, 'j) env \<Rightarrow> string \<Rightarrow> resource_data \<Rightarrow> 'w world \<Rightarrow> panic + 'w result" where
  "ReadBasic_acl env bucketAWS d w =
     (case retryFlakyS3Responses env (s3Client_get env ''GetBucketAcl'' bucketAWS) w of
        ((grants, err), w1) \<Rightarrow>
          if \<not> d_IsNewResource d \<and> isAWSErr err ''NoSuchBucket'' [] then Inr (None, d_SetId d [], w1)
          else
            (case err of
               Some e \<Rightarrow>
                 if has_aws_code e [''AccessDenied'', ''Forbidden''] then
                   (case d_Set d ''grant'' TNil of
                      (Some e1, d1) \<Rightarrow>
                        Inr (Some (Errorf ''error resetting Storage Bucket `grant` %s'' [Inr e1]), d1, w1)
                    | (None, d1) \<Rightarrow> Inr (None, d1, w1))
                 else Inr (Some (Errorf ''error getting Storage Bucket (%s) ACL: %s'' [Inl (d_Id d), Inr e]), d, w1)
             | None \<Rightarrow>
                 (case d_Set d ''grant'' grants of
                    (Some e1, d1) \<Rightarrow>
                      Inr (Some (Errorf ''error setting Storage Bucket `grant` %s'' [Inr e1]), d1, w1)
                  | (None, d1) \<Rightarrow> ReadBasic_versioning env bucketAWS d1 w1)))"

definition ReadBasic_website_endpoint ::
  "('w, 'j) env \<Rightarrow> string \<Rightarrow> resource_data \<Rightarrow> 'w world \<Rightarrow> panic + 'w result" where
  "ReadBasic_website_endpoint env bucketAWS d w =
     (case websiteEndpoint d of
        Inl err \<Rightarrow> Inr (Some err, d, w)
      | Inr None \<Rightarrow> ReadBasic_acl env bucketAWS d w
      | Inr (Some endpoint) \<Rightarrow>
          (case d_Set d ''website_endpoint'' (TStr (Endpoint endpoint)) of
             (Some e, d1) \<Rightarrow> Inr (Some (Errorf ''error setting website_endpoint: %s'' [Inr e]), d1, w)
           | (None, d1) \<Rightarrow>
               (case d_Set d1 ''website_domain'' (TStr (Domain endpoint)) of
                  (Some e, d2) \<Rightarrow> Inr (Some (Errorf ''error setting website_domain: %s'' [Inr e]), d2, w)
                | (None, d2) \<Rightarrow> ReadBasic_acl env bucketAWS d2 w)))"

definition ReadBasic_website ::
  "('w, 'j) env \<Rightarrow> string \<Rightarrow> resource_data \<Rightarrow> 'w world \<Rightarrow> panic + 'w result" where
  "ReadBasic_website env bucketAWS d w =
     (case retryFlakyS3Responses env (s3Client_GetBucketWebsite env bucketAWS) w of
        ((websites, err), w1) \<Rightarrow>
          (case (if isAWSErr err ''NotImplemented'' [] \<or>
                    isAWSErr err ''NoSuchWebsiteConfiguration'' [] then None else err) of
             Some e \<Rightarrow>
               (case handleS3BucketNotFoundError d (Some e) of
                  (True, d1) \<Rightarrow> Inr (None, d1, w1)
                | (False, d1) \<Rightarrow>
                    Inr (Some (Errorf ''error getting Storage Bucket website configuration: %s'' [Inr e]), d1, w1))
           | None \<Rightarrow>
               (case websites of
                  Inl e \<Rightarrow> Inr (Some (Errorf ''Error while marshaling routing rules: %s'' [Inr e]), d, w1)
                | Inr ws \<Rightarrow>
                    (case d_Set d ''website'' ws of
                       (Some e, d1) \<Rightarrow> Inr (Some (Errorf ''error setting website: %s'' [Inr e]), d1, w1)
                     | (None, d1) \<Rightarrow> ReadBasic_website_endpoint env bucketAWS d1 w1))))"

definition ReadBasic_cors ::
  "('w, 'j) env \<Rightarrow> string \<Rightarrow> resource_data \<Rightarrow> 'w world \<Rightarrow> panic + 'w result" where
  "ReadBasic_cors env bucketAWS d w =
     (case retryFlakyS3Responses env (s3Client_get env ''GetBucketCors'' bucketAWS) w of
        ((corsRules, err), w1) \<Rightarrow>
          (case (if isAWSErr err ''NoSuchCORSConfiguration'' [] then None else err) of
             Some e \<Rightarrow>
               (case handleS3BucketNotFoundError d (Some e) of
                  (True, d1) \<Rightarrow> Inr (None, d1, w1)
                | (False, d1) \<Rightarrow>
                    Inr (Some (Errorf ''error getting Storage Bucket CORS configuration: %s'' [Inr e]), d1, w1))
           | None \<Rightarrow>
               (case d_Set d ''cors_rule'' corsRules of
                  (Some e, d1) \<Rightarrow> Inr (Some (Errorf ''error setting cors_rule: %s'' [Inr e]), d1, w1)
                | (None, d1) \<Rightarrow> ReadBasic_website env bucketAWS d1 w1)))"

definition ReadBasic_policy ::
  "('w, 'j) env \<Rightarrow> string \<Rightarrow> resource_data \<Rightarrow> 'w world \<Rightarrow> panic + 'w result" where
  "ReadBasic_policy env bucketAWS d w =
     (case retryFlakyS3Responses env (s3Client_GetBucketPolicy env bucketAWS) w of
        ((pol, None), w1) \<Rightarrow>
          (case pol of
             None \<Rightarrow>
               (case d_Set d ''policy'' (TStr []) of
                  (Some e, d1) \<Rightarrow> Inr (Some (Errorf ''error setting policy: %s'' [Inr e]), d1, w1)
                | (None, d1) \<Rightarrow> ReadBasic_cors env bucketAWS d1 w1)
           | Some v \<Rightarrow>
               (case NormalizeJsonString env (Some v) of
                  Inl e \<Rightarrow> Inr (Some (Errorf ''policy contains an invalid JSON: %s'' [Inr e]), d, w1)
                | Inr policy \<Rightarrow>
                    (case d_Set d ''policy'' (TStr policy) of
                       (Some e, d1) \<Rightarrow> Inr (Some (Errorf ''error setting policy: %s'' [Inr e]), d1, w1)
                     | (None, d1) \<Rightarrow> ReadBasic_cors env bucketAWS d1 w1)))
      | ((pol, Some err), w1) \<Rightarrow>
          if isAWSErr (Some err) ''NoSuchBucketPolicy'' [] then
            ReadBasic_cors env bucketAWS (snd (d_Set d ''policy'' (TStr []))) w1
          else if isAWSErr (Some err) ''AccessDenied'' [] then
            ReadBasic_cors env bucketAWS (snd (d_Set d ''policy'' TNil)) w1
          else Inr (Some (Errorf ''error getting current policy: %s'' [Inr err]), d, w1))"

definition ReadBasic_head ::
  "('w, 'j) env \<Rightarrow> string \<Rightarrow> resource_data \<Rightarrow> 'w world \<Rightarrow> panic + 'w result" where
  "ReadBasic_head env bucketAWS d w =
     (case retryFlakyS3Responses env (no_output (s3Client_HeadBucket env bucketAWS)) w of
        ((resp, Some err), w1) \<Rightarrow>
          (case handleS3BucketNotFoundError d (Some err) of
             (True, d1) \<Rightarrow> Inr (None, d1, w1)
           | (False, d1) \<Rightarrow>
               Inr (Some (Errorf ''error reading Storage Bucket (%s): %s'' [Inl (d_Id d1), Inr err]), d1, w1))
      | ((resp, None), w1) \<Rightarrow>
          (let d1 = (if \<not> snd (d_GetOk d ''bucket'')
                     then snd (d_Set d ''bucket'' (TStr (d_Id d))) else d)
           in case bucketDomainName env (as_string (d_Get d1 ''bucket'')) (StorageEndpoint env) of
                Inl err \<Rightarrow> Inr (Some (Errorf ''error getting bucket domain name: %s'' [Inr err]), d1, w1)
              | Inr domainName \<Rightarrow>
                  ReadBasic_policy env bucketAWS
                    (snd (d_Set d1 ''bucket_domain_name'' (TStr domainName))) w1))"

definition resourceYandexStorageBucketReadBasic ::
  "('w, 'j) env \<Rightarrow> resource_data \<Rightarrow> 'w world \<Rightarrow> panic + 'w result" where
  "resourceYandexStorageBucketReadBasic env d w =
     (case getS3Client_error env of
        Some err \<Rightarrow> Inr (Some (Errorf ''error getting storage client: %s'' [Inr err]), d, w)
      | None \<Rightarrow> ReadBasic_head env (d_Id d) d w)"

text \<open>
  The extended read writes the parameters of the bucket, the flattened anonymous access
  flags among them, before it asks for the HTTPS configuration; the name of the bucket is
  read before these writes, which do not touch it.
\<close>

definition flatten_aaf :: "AnonymousAccessFlags \<Rightarrow> tf_value" where
  "flatten_aaf aaf =
     TMap ((case aaf_List aaf of Some v \<Rightarrow> [(''list'', TBool v)] | None \<Rightarrow> []) @
           (case aaf_Read aaf of Some v \<Rightarrow> [(''read'', TBool v)] | None \<Rightarrow> []) @
           (case aaf_ConfigRead aaf of Some v \<Rightarrow> [(''config_read'', TBool v)] | None \<Rightarrow> []))"

definition ReadExtended_set_bucket :: "resource_data \<Rightarrow> storage_Bucket \<Rightarrow> resource_data" where
  "ReadExtended_set_bucket d bucket =
     (let d1 = snd (d_Set d ''default_storage_class'' (TStr (b_DefaultStorageClass bucket)));
          d2 = snd (d_Set d1 ''folder_id'' (TStr (b_FolderId bucket)));
          d3 = snd (d_Set d2 ''max_size'' (TInt (b_MaxSize bucket)))
      in snd (d_Set d3 ''anonymous_access_flags''
                (case b_AnonymousAccessFlags bucket of
                   None \<Rightarrow> TNil
                 | Some aaf \<Rightarrow> TList [flatten_aaf aaf])))"

definition resourceYandexStorageBucketReadExtended ::
  "('w, 'j) env \<Rightarrow> resource_data \<Rightarrow> 'w world \<Rightarrow> 'w result" where
  "resourceYandexStorageBucketReadExtended env d w =
     (if d_Id d = [] then (None, d, w)
      else
        (case bucketAPI_Get env (as_string (d_Get d ''bucket'')) w of
           (Inl err, w1) \<Rightarrow>
             (case handleS3BucketNotFoundError d (Some err) of
                (True, d1) \<Rightarrow> (None, d1, w1)
              | (False, d1) \<Rightarrow> (Some err, d1, w1))
         | (Inr bucket, w1) \<Rightarrow>
             (case bucketAPI_GetHTTPSConfig env (as_string (d_Get d ''bucket''))  w1 of
                (Inr https, w2) \<Rightarrow>
                  if https_managed_by_certificate_manager https then
                    (case d_Set (ReadExtended_set_bucket d bucket) ''https''
                            (TList [TMap [(''certificate_id'', TStr (https_CertificateId https))]]) of
                       (Some e, d2) \<Rightarrow>
                         (Some (Errorf ''updating S3 bucket https config state: %w'' [Inr e]), d2, w2)
                     | (None, d2) \<Rightarrow> (None, d2, w2))
                  else (None, ReadExtended_set_bucket d bucket, w2)
              | (Inl err, w2) \<Rightarrow>
                  if isStatusWithCode (Some err) codes_NotFound \<or>
                     isStatusWithCode (Some err) codes_PermissionDenied
                  then (None, snd (d_Set (ReadExtended_set_bucket d bucket) ''https'' TNil), w2)
                  else (Some err, ReadExtended_set_bucket d bucket, w2))))"

text \<open>
  \<open>resourceYandexStorageBucketRead\<close> logs the error of the extended read and returns
  nil.
\<close>

definition resourceYandexStorageBucketRead ::
  "('w, 'j) env \<Rightarrow> resource_data \<Rightarrow> 'w world \<Rightarrow> panic + 'w result" where
  "resourceYandexStorageBucketRead env d w =
     (case resourceYandexStorageBucketReadBasic env d w of
        Inl p \<Rightarrow> Inl p
      | Inr (Some err, d1, w1) \<Rightarrow> Inr (Some err, d1, w1)
      | Inr (None, d1, w1) \<Rightarrow>
          (case resourceYandexStorageBucketReadExtended env d1 w1 of
             (err, d2, w2) \<Rightarrow> Inr (None, d2, w2)))"

section \<open>Update\<close>

text \<open>
  The table of properties of \<open>resourceYandexStorageBucketUpdateBasic\<close>, in its order, and
  the loop over it.
\<close>

definition resourceProperties :: "string list" where
  "resourceProperties =
     [''policy'', ''cors_rule'', ''website'', ''versioning'', ''acl'', ''grant'', ''logging'',
      ''lifecycle_rule'', ''server_side_encryption_configuration'', ''object_lock_configuration'',
      ''tags'']"

fun update_properties ::
  "('w, 'j) env \<Rightarrow> string list \<Rightarrow> resource_data \<Rightarrow> 'w world \<Rightarrow> 'w result" where
  "update_properties env [] d w = (None, d, w)"
| "update_properties env (name # properties) d w =
     (if \<not> d_HasChange d name then update_properties env properties d w
      else if name = ''acl'' \<and> d_IsNewResource d then update_properties env properties d w
      else
        (case updateHandler env name d w of
           (Some err, attrs1, w1) \<Rightarrow>
             (Some (Errorf ''handling %s: %w'' [Inl name, Inr err]), d\<lparr>rd_attrs := attrs1\<rparr>, w1)
         | (None, attrs1, w1) \<Rightarrow> update_properties env properties (d\<lparr>rd_attrs := attrs1\<rparr>) w1))"

definition resourceYandexStorageBucketUpdateBasic ::
  "('w, 'j) env \<Rightarrow> resource_data \<Rightarrow> 'w world \<Rightarrow> 'w result" where
  "resourceYandexStorageBucketUpdateBasic env d w =
     (case getS3Client_error env of
        Some err \<Rightarrow> (Some (Errorf ''error getting storage client: %s'' [Inr err]), d, w)
      | None \<Rightarrow> update_properties env resourceProperties d w)"

definition resourceYandexStorageRequireExternalSDK :: "resource_data \<Rightarrow> bool" where
  "resourceYandexStorageRequireExternalSDK d =
     (case d_GetOk d ''folder_id'' of
        (v, False) \<Rightarrow> False
      | (TStr folderID, True) \<Rightarrow> folderID \<noteq> []
      | (v, True) \<Rightarrow> False)"

text \<open>
  \<open>getAnonymousAccessFlagsSDK\<close> reads the first element of the set, a map from the flag
  names to booleans.
\<close>

definition map_field :: "tf_value \<Rightarrow> string \<Rightarrow> tf_value" where
  "map_field v k = (case v of TMap kvs \<Rightarrow> (case map_of kvs k of Some x \<Rightarrow> x | None \<Rightarrow> TNil) | _ \<Rightarrow> TNil)"

definition bool_field :: "tf_value \<Rightarrow> string \<Rightarrow> bool option" where
  "bool_field v k = (case map_field v k of TBool b \<Rightarrow> Some b | _ \<Rightarrow> None)"

definition getAnonymousAccessFlagsSDK :: "tf_value \<Rightarrow> AnonymousAccessFlags option" where
  "getAnonymousAccessFlagsSDK v =
     (case v of
        TList (flags # rest) \<Rightarrow>
          Some \<lparr>aaf_List = bool_field flags ''list'', aaf_Read = bool_field flags ''read'',
                aaf_ConfigRead = bool_field flags ''config_read''\<rparr>
      | _ \<Rightarrow> None)"

text \<open>
  The three change handlers of \<open>resourceYandexStorageBucketUpdateExtended\<close>, and
  \<open>handleChange\<close>, which acts on the request and on \<open>paths\<close>.
\<close>

definition changeHandlers :: "string \<rightharpoonup> (tf_value \<Rightarrow> storage_UpdateBucketRequest \<Rightarrow> storage_UpdateBucketRequest)" where
  "changeHandlers =
     [''default_storage_class'' \<mapsto> (\<lambda>v request. request\<lparr>ur_DefaultStorageClass := as_string v\<rparr>),
      ''max_size'' \<mapsto> (\<lambda>v request. request\<lparr>ur_MaxSize := as_int v\<rparr>),
      ''anonymous_access_flags'' \<mapsto>
         (\<lambda>v request. request\<lparr>ur_AnonymousAccessFlags := getAnonymousAccessFlagsSDK v\<rparr>)]"

definition handleChange ::
  "resource_data \<Rightarrow> bool \<Rightarrow> string \<Rightarrow> (tf_value \<Rightarrow> storage_UpdateBucketRequest \<Rightarrow> storage_UpdateBucketRequest) \<Rightarrow>
   storage_UpdateBucketRequest \<times> string list \<Rightarrow> storage_UpdateBucketRequest \<times> string list" where
  "handleChange d createdBySDK property f = (\<lambda>(request, paths).
     if (d_IsNewResource d \<and> createdBySDK) \<or> \<not> d_HasChange d property then (request, paths)
     else (f (d_Get d property) request, paths @ [property]))"

text \<open>
  The loop ranges over the map \<open>changeHandlers\<close>; the order of the range is open in Go
  and is the list \<open>order\<close> here, an enumeration of the keys of the map.
\<close>

fun range_changeHandlers ::
  "resource_data \<Rightarrow> bool \<Rightarrow> string list \<Rightarrow>
   storage_UpdateBucketRequest \<times> string list \<Rightarrow> storage_UpdateBucketRequest \<times> string list" where
  "range_changeHandlers d createdBySDK [] acc = acc"
| "range_changeHandlers d createdBySDK (field # order) acc =
     (case changeHandlers field of
        Some handler \<Rightarrow>
          range_changeHandlers d createdBySDK order (handleChange d createdBySDK field handler acc)
      | None \<Rightarrow> range_changeHandlers d createdBySDK order acc)"

text \<open>
  \<open>fieldmaskpb.New\<close> checks every path against the message and answers the mask with
  the paths in the order given. The names are the fields of the update request that
  the resource uses.
\<close>

definition UpdateBucketRequest_fields :: "string list" where
  "UpdateBucketRequest_fields =
     [''name'', ''update_mask'', ''anonymous_access_flags'', ''default_storage_class'', ''max_size'']"

definition fieldmaskpb_New :: "string list \<Rightarrow> go_error + string list" where
  "fieldmaskpb_New paths =
     (case filter (\<lambda>p. p \<notin> set UpdateBucketRequest_fields) paths of
        [] \<Rightarrow> Inr paths
      | p # ps \<Rightarrow> Inl (Errorf ''invalid path %q'' [Inl p]))"

text \<open>
  The answer to the error left by \<open>waitOperation\<close> and to the error of the finished
  operation: shared by the three calls of the extended update, each of which returns
  here unless both are nil.
\<close>

definition operation_outcome ::
  "resource_data \<Rightarrow> go_error option \<times> (nat \<times> string) option \<Rightarrow> 'w world \<Rightarrow> 'w result option" where
  "operation_outcome d r w =
     (case r of
        (Some err, opErr) \<Rightarrow>
          (case handleS3BucketNotFoundError d (Some err) of
             (True, d1) \<Rightarrow> Some (None, d1, w)
           | (False, d1) \<Rightarrow> Some (Some err, d1, w))
      | (None, Some (code, message)) \<Rightarrow> Some (status_Error code message, d, w)
      | (None, None) \<Rightarrow> None)"

text \<open>
  The last part of the extended update: the HTTPS configuration is set from the first
  element of the \<open>https\<close> set, whose certificate the schema requires, or deleted when
  the set is empty.
\<close>

definition UpdateExtended_https ::
  "('w, 'j) env \<Rightarrow> string \<Rightarrow> resource_data \<Rightarrow> 'w world \<Rightarrow> 'w result" where
  "UpdateExtended_https env bucket d w =
     (if \<not> d_HasChange d ''https'' then (None, d, w)
      else
        (case d_Get d ''https'' of
           TList (params # rest) \<Rightarrow>
             (case bucketAPI_SetHTTPSConfig env bucket (as_string (map_field params ''certificate_id'')) w of
                (r, w1) \<Rightarrow>
                  (case operation_outcome d r w1 of
                     Some res \<Rightarrow> res
                   | None \<Rightarrow> (None, d, w1)))
         | _ \<Rightarrow>
             (case bucketAPI_DeleteHTTPSConfig env bucket w of
                (r, w1) \<Rightarrow>
                  (case operation_outcome d r w1 of
                     Some res \<Rightarrow> res
                   | None \<Rightarrow> (None, d, w1)))))"

definition resourceYandexStorageBucketUpdateExtended ::
  "('w, 'j) env \<Rightarrow> resource_data \<Rightarrow> 'w world \<Rightarrow> 'w result" where
  "resourceYandexStorageBucketUpdateExtended env d w =
     (if d_Id d = [] then (None, d, w)
      else
        (let bucket = as_string (d_Get d ''bucket'');
             createdBySDK = resourceYandexStorageRequireExternalSDK d;
             (bucketUpdateRequest, paths) =
               range_changeHandlers d createdBySDK (range_order env)
                 (\<lparr>ur_Name = bucket, ur_DefaultStorageClass = [], ur_MaxSize = 0,
                   ur_AnonymousAccessFlags = None, ur_UpdateMask = None\<rparr>, [])
         in if length paths > 0 then
              (case fieldmaskpb_New paths of
                 Inl err \<Rightarrow> (Some (Errorf ''constructing field mask: %w'' [Inr err]), d, w)
               | Inr updateMask \<Rightarrow>
                   (case bucketAPI_Update env (bucketUpdateRequest\<lparr>ur_UpdateMask := Some updateMask\<rparr>) w of
                      (r, w1) \<Rightarrow>
                        (case operation_outcome d r w1 of
                           Some res \<Rightarrow> res
                         | None \<Rightarrow> UpdateExtended_https env bucket d w1)))
            else UpdateExtended_https env bucket d w))"

definition resourceYandexStorageBucketUpdate ::
  "('w, 'j) env \<Rightarrow> resource_data \<Rightarrow> 'w world \<Rightarrow> panic + 'w result" where
  "resourceYandexStorageBucketUpdate env d w =
     (case resourceYandexStorageBucketUpdateBasic env d w of
        (Some err, d1, w1) \<Rightarrow> Inr (Some err, d1, w1)
      | (None, d1, w1) \<Rightarrow>
          (case resourceYandexStorageBucketUpdateExtended env d1 w1 of
             (Some err, d2, w2) \<Rightarrow> Inr (Some err, d2, w2)
           | (None, d2, w2) \<Rightarrow> resourceYandexStorageBucketRead env d2 w2))"

section \<open>Create\<close>

text \<open>The canned ACLs, and the grants (permission and grant type) that \<open>mapACL\<close> gives them.\<close>

definition bucketACLOwnerFullControl :: string where
  "bucketACLOwnerFullControl = ''bucket-owner-full-control''"

definition bucketACLPublicRead :: string where
  "bucketACLPublicRead = ''public-read''"

definition bucketACLPublicReadWrite :: string where
  "bucketACLPublicReadWrite = ''public-read-write''"

definition bucketACLAuthRead :: string where
  "bucketACLAuthRead = ''authenticated-read''"

definition bucketACLPrivate :: string where
  "bucketACLPrivate = ''private''"

definition mapACL :: "string \<Rightarrow> go_error + (string \<times> string) list" where
  "mapACL acl =
     (if acl = bucketACLPublicRead then Inr [(''PERMISSION_READ'', ''GRANT_TYPE_ALL_USERS'')]
      else if acl = bucketACLPublicReadWrite then
        Inr [(''PERMISSION_READ'', ''GRANT_TYPE_ALL_USERS''), (''PERMISSION_READ'', ''GRANT_TYPE_ALL_USERS'')]
      else if acl = bucketACLAuthRead then
        Inr [(''PERMISSION_READ'', ''GRANT_TYPE_ALL_AUTHENTICATED_USERS'')]
      else Inr [])"

text \<open>
  \<open>bucketAPI.Create\<close> answers the error left by \<open>waitOperation\<close> and the error of
  unmarshalling the response of the operation into a bucket.
\<close>

definition resourceYandexStorageBucketCreateBySDK ::
  "('w, 'j) env \<Rightarrow> resource_data \<Rightarrow> 'w world \<Rightarrow> 'w result" where
  "resourceYandexStorageBucketCreateBySDK env d w =
     (case mapACL (as_string (d_Get d ''acl'')) of
        Inl err \<Rightarrow> (Some (Errorf ''mapping acl: %w'' [Inr err]), d, w)
      | Inr acl \<Rightarrow>
          (case bucketAPI_Create env
                  \<lparr>cr_Name = as_string (d_Get d ''bucket''),
                   cr_FolderId = as_string (d_Get d ''folder_id''),
                   cr_AnonymousAccessFlags = getAnonymousAccessFlagsSDK (d_Get d ''anonymous_access_flags''),
                   cr_MaxSize = as_int (d_Get d ''max_size''),
                   cr_DefaultStorageClass = as_string (d_Get d ''default_storage_class''),
                   cr_Acl = acl\<rparr> w of
             ((Some err, unmarshalErr), w1) \<Rightarrow> (Some err, d, w1)
           | ((None, Some err), w1) \<Rightarrow> (Some err, d, w1)
           | ((None, None), w1) \<Rightarrow> (None, d, w1)))"

text \<open>
  The retry of \<open>CreateBucket\<close> under \<open>resource.RetryContext\<close>: the first argument is the
  number of further attempts that fit into the five minutes.
\<close>

fun retry_CreateBucket ::
  "nat \<Rightarrow> ('w, 'j) env \<Rightarrow> string \<Rightarrow> string \<Rightarrow> 'w world \<Rightarrow> go_error option \<times> 'w world" where
  "retry_CreateBucket 0 env bucket acl w =
     (case s3Client_CreateBucket env bucket acl w of
        (None, w1) \<Rightarrow> (None, w1)
      | (Some err, w1) \<Rightarrow>
          if has_aws_code err [''OperationAborted'', ''AccessDenied'', ''Forbidden''] then
            (Some (Errorf ''error creating Storage S3 Bucket %s, retrying: %s'' [Inl bucket, Inr err]), w1)
          else (Some err, w1))"
| "retry_CreateBucket (Suc n) env bucket acl w =
     (case s3Client_CreateBucket env bucket acl w of
        (None, w1) \<Rightarrow> (None, w1)
      | (Some err, w1) \<Rightarrow>
          if has_aws_code err [''OperationAborted'', ''AccessDenied'', ''Forbidden''] then
            retry_CreateBucket n env bucket acl w1
          else (Some err, w1))"

definition resourceYandexStorageBucketCreateByS3Client ::
  "('w, 'j) env \<Rightarrow> resource_data \<Rightarrow> 'w world \<Rightarrow> 'w result" where
  "resourceYandexStorageBucketCreateByS3Client env d w =
     (let bucket = as_string (d_Get d ''bucket'');
          acl = (case d_GetOk d ''acl'' of (aclValue, True) \<Rightarrow> as_string aclValue | (aclValue, False) \<Rightarrow> bucketACLPrivate)
      in case getS3Client_error env of
           Some err \<Rightarrow> (Some (Errorf ''error getting storage client: %s'' [Inr err]), d, w)
         | None \<Rightarrow>
             (case retry_CreateBucket (retry_attempts env 5) env bucket acl w of
                (err, w1) \<Rightarrow> (err, d, w1)))"

text \<open>
  \<open>resource.UniqueId()\<close> is \<open>resource.PrefixedUniqueId\<close> of the prefix \<open>terraform-\<close>.
\<close>

definition PrefixedUniqueId :: "('w, 'j) env \<Rightarrow> string \<Rightarrow> string" where
  "PrefixedUniqueId env prefix = prefix @ unique_suffix env"

definition UniqueId :: "('w, 'j) env \<Rightarrow> string" where
  "UniqueId env = PrefixedUniqueId env ''terraform-''"

text \<open>The name that \<open>resourceYandexStorageBucketCreate\<close> gives the bucket.\<close>

definition Create_bucket_name :: "('w, 'j) env \<Rightarrow> resource_data \<Rightarrow> string" where
  "Create_bucket_name env d =
     (case d_GetOk d ''bucket'' of
        (v, True) \<Rightarrow> as_string v
      | (v, False) \<Rightarrow>
          (case d_GetOk d ''bucket_prefix'' of
             (p, True) \<Rightarrow> PrefixedUniqueId env (as_string p)
           | (p, False) \<Rightarrow> UniqueId env))"

text \<open>
  The creation call of \<open>resourceYandexStorageBucketCreate\<close>: through the storage API
  when a folder is given, through the S3 client otherwise.
\<close>

definition Create_call :: "('w, 'j) env \<Rightarrow> resource_data \<Rightarrow> 'w world \<Rightarrow> 'w result" where
  "Create_call env d w =
     (if (case d_Get d ''folder_id'' of TStr folderID \<Rightarrow> folderID \<noteq> [] | _ \<Rightarrow> False)
      then resourceYandexStorageBucketCreateBySDK env d w
      else resourceYandexStorageBucketCreateByS3Client env d w)"

definition resourceYandexStorageBucketCreate ::
  "('w, 'j) env \<Rightarrow> resource_data \<Rightarrow> 'w world \<Rightarrow> panic + 'w result" where
  "resourceYandexStorageBucketCreate env d w =
     (let bucket = Create_bucket_name env d
      in case validateS3BucketName bucket of
           Some err \<Rightarrow> Inr (Some (Errorf ''error validating Storage Bucket name: %s'' [Inr err]), d, w)
         | None \<Rightarrow>
             (case Create_call env (snd (d_Set d ''bucket'' (TStr bucket))) w of
                (Some err, d2, w1) \<Rightarrow>
                  Inr (Some (Errorf ''error creating Storage S3 Bucket: %s'' [Inr err]), d2, w1)
              | (None, d2, w1) \<Rightarrow> resourceYandexStorageBucketUpdate env (d_SetId d2 bucket) w1))"

section \<open>Environments for the examples\<close>

text \<open>
  A service without state on which every call succeeds, with no policy, no rules, no
  tags and no HTTPS configuration; the JSON values are the strings themselves. The
  other environments differ from it in one answer.
\<close>

definition quiet_env :: "('w, string) env" where
  "quiet_env =
     \<lparr>getS3Client_error = None,
      StorageEndpoint = ''storage.yandexcloud.net'',
      retry_attempts = (\<lambda>minutes. 0),
      unique_suffix = ''20260101000000000000000001'',
      url_Hostname = (\<lambda>u. Inr ''storage.yandexcloud.net''),
      json_Unmarshal = (\<lambda>s. Inr s),
      json_Marshal = (\<lambda>j. j),
      s3_plain = (\<lambda>operation bucket s. (None, s)),
      s3_CreateBucket = (\<lambda>bucket acl s. (None, s)),
      s3_ListObjectVersions = (\<lambda>bucket s. ((\<lparr>DeleteMarkers = [], Versions = []\<rparr>, None), s)),
      s3_DeleteObjects = (\<lambda>bucket objects s. (None, s)),
      s3_GetBucketPolicy = (\<lambda>bucket s. ((None, None), s)),
      s3_GetBucketWebsite = (\<lambda>bucket s. ((Inr (TList []), None), s)),
      s3_GetBucketTagging = (\<lambda>bucket s. (([], None), s)),
      s3_get = (\<lambda>operation bucket s. ((TList [], None), s)),
      storage_Create = (\<lambda>request s. ((None, None), s)),
      storage_Update = (\<lambda>request s. ((None, None), s)),
      storage_SetHTTPSConfig = (\<lambda>name certificate s. ((None, None), s)),
      storage_DeleteHTTPSConfig = (\<lambda>name s. ((None, None), s)),
      storage_Get = (\<lambda>name s.
        (Inr \<lparr>b_DefaultStorageClass = ''STANDARD'', b_FolderId = ''folder'', b_MaxSize = 0,
              b_AnonymousAccessFlags = None\<rparr>, s)),
      storage_GetHTTPSConfig = (\<lambda>name s. (Inl (GrpcStatus 5 ''no https config''), s)),
      updateHandler = (\<lambda>name d w. (None, rd_attrs d, w)),
      range_order = [''default_storage_class'', ''max_size'', ''anonymous_access_flags'']\<rparr>"

definition no_calls :: "unit world" where
  "no_calls = \<lparr>srv = (), calls = []\<rparr>"

definition my_bucket :: resource_data where
  "my_bucket =
     \<lparr>rd_id = ''my-bucket'',
      rd_attrs = [''bucket'' \<mapsto> TStr ''my-bucket'', ''force_destroy'' \<mapsto> TBool True],
      rd_changed = (\<lambda>k. False),
      rd_is_new = False,
      rd_set_error = (\<lambda>k. None)\<rparr>"

definition BucketNotEmpty :: go_error where
  "BucketNotEmpty = AwsErr ''BucketNotEmpty'' ''The bucket you tried to delete is not empty'' (Some 409)"

definition NoSuchBucket :: go_error where
  "NoSuchBucket = AwsErr ''NoSuchBucket'' ''The specified bucket does not exist'' (Some 404)"

definition NotFound :: go_error where
  "NotFound = AwsErr ''NotFound'' ''Not Found'' (Some 404)"


text \<open>The bucket is reported as not empty at every attempt to delete it.\<close>

definition stubborn_env :: "(unit, string) env" where
  "stubborn_env = quiet_env\<lparr>s3_plain := (\<lambda>operation bucket s.
      (if operation = ''DeleteBucket'' then Some BucketNotEmpty else None, s))\<rparr>"

text \<open>The bucket does not exist: deleting it and looking it up fail with a 404.\<close>

definition gone_env :: "(unit, string) env" where
  "gone_env = quiet_env\<lparr>s3_plain := (\<lambda>operation bucket s.
      (if operation = ''DeleteBucket'' then Some NoSuchBucket else Some NotFound, s))\<rparr>"

text \<open>
  The state of the service is the number of object versions in the bucket; the bucket
  can be deleted when there is none, a call to delete objects removes one, and the
  bucket is gone once it is deleted (the number is kept at 0 and a lookup fails).
\<close>

definition counting_env :: "(nat, string) env" where
  "counting_env = quiet_env
     \<lparr>s3_plain := (\<lambda>operation bucket n.
        (if operation = ''DeleteBucket'' then (if n = 0 then None else Some BucketNotEmpty)
         else Some NotFound, n)),
      s3_ListObjectVersions := (\<lambda>bucket n.
        ((\<lparr>DeleteMarkers = [],
           Versions = (if n = 0 then [] else [\<lparr>oi_Key = Some ''object'', oi_VersionId = Some ''null''\<rparr>])\<rparr>,
          None), n)),
      s3_DeleteObjects := (\<lambda>bucket objects n. (None, n - 1))\<rparr>"

section \<open>Vocabulary of the statements\<close>

text \<open>
  What a round of \<open>waitConditionStable\<close> that starts with \<open>k\<close> checks done adds to the
  trace, given what the round yields; and what the rounds together add, given the
  result. Both are used in the proofs only.
\<close>

definition round_outcome ::
  "nat \<Rightarrow> go_error + bool \<Rightarrow> (bool \<times> go_error option) list \<Rightarrow> bool" where
  "round_outcome k r new \<longleftrightarrow>
     k + length new \<le> 10 \<and>
     (case r of
        Inl e \<Rightarrow> new \<noteq> [] \<and> snd (last new) = Some e \<and> (\<forall>x\<in>set (butlast new). x = (True, None))
      | Inr allOk \<Rightarrow>
          if allOk then k + length new = 10 \<and> (\<forall>x\<in>set new. x = (True, None))
          else new \<noteq> [] \<and> last new = (False, None) \<and> (\<forall>x\<in>set (butlast new). x = (True, None)))"

definition wait_outcome ::
  "nat \<Rightarrow> go_error option \<Rightarrow> (bool \<times> go_error option) list \<Rightarrow> bool" where
  "wait_outcome rounds res new \<longleftrightarrow>
     length new \<le> 10 * rounds \<and>
     (res = None \<longrightarrow> 10 \<le> length new \<and> (\<forall>x\<in>set (drop (length new - 10) new). x = (True, None))) \<and>
     (\<forall>x\<in>set (butlast new). snd x = None) \<and>
     (new \<noteq> [] \<and> snd (last new) \<noteq> None \<longrightarrow> res = snd (last new)) \<and>
     (res \<noteq> None \<and> (\<forall>x\<in>set new. snd x = None) \<longrightarrow>
        res = Some (Errorf ''timeout exceeded'' []) \<and> length (filter (\<lambda>x. \<not> fst x) new) = rounds)"

text \<open>A check that never holds and never fails; its state counts its invocations.\<close>

definition never_ok :: "nat \<Rightarrow> (bool \<times> go_error option) \<times> nat" where
  "never_ok n = ((False, None), Suc n)"

text \<open>A resource that is being created under the given bucket name.\<close>

definition new_bucket :: "string \<Rightarrow> resource_data" where
  "new_bucket name =
     \<lparr>rd_id = [],
      rd_attrs = [''bucket'' \<mapsto> TStr name],
      rd_changed = (\<lambda>k. False),
      rd_is_new = True,
      rd_set_error = (\<lambda>k. None)\<rparr>"

text \<open>
  One round of the cascade of \<open>resourceYandexStorageBucketDelete\<close>: the world in which
  the function calls itself, if it does. That is the case when the retried call to
  delete the bucket ends with \<open>BucketNotEmpty\<close>, \<open>force_destroy\<close> is set, and the object
  versions are listed and deleted without error.
\<close>

definition purge_round :: "('w, 'j) env \<Rightarrow> resource_data \<Rightarrow> 'w world \<Rightarrow> 'w world option" where
  "purge_round env d w =
     (case retryOnAwsCodes (retry_attempts env 1) [''AccessDenied'', ''Forbidden'']
             (no_output (s3Client_DeleteBucket env (d_Id d))) w of
        ((resp0, err), w1) \<Rightarrow>
          if isAWSErr err ''BucketNotEmpty'' [] \<and> as_bool (d_Get d ''force_destroy'') then
            (case s3Client_ListObjectVersions env (as_string (d_Get d ''bucket'')) w1 of
               ((resp, Some err1), w2) \<Rightarrow> None
             | ((resp, None), w2) \<Rightarrow>
                 (case s3Client_DeleteObjects env (as_string (d_Get d ''bucket''))
                         (DeleteMarkers resp @ Versions resp) w2 of
                    (Some err2, w3) \<Rightarrow> None
                  | (None, w3) \<Rightarrow> Some w3))
          else None)"







definition not_found :: "go_error \<Rightarrow> bool" where
  "not_found e \<longleftrightarrow> isRequestFailure404 (Some e) \<or> isStatusWithCode (Some e) codes_NotFound"


text \<open>
  The returned error carries the error \<open>e\<close>: it is \<open>e\<close>, or it is made by \<open>fmt.Errorf\<close>
  with \<open>e\<close> among the arguments.
\<close>

fun carries :: "go_error \<Rightarrow> go_error \<Rightarrow> bool" where
  "carries (Errorf f args) e = (Errorf f args = e \<or> Inr e \<in> set args)"
| "carries e' e = (e' = e)"





text \<open>The update requests among the calls of a log, in their order.\<close>

fun update_requests :: "api_call list \<Rightarrow> storage_UpdateBucketRequest list" where
  "update_requests [] = []"
| "update_requests (Storage_Update request # cs) = request # update_requests cs"
| "update_requests (c # cs) = update_requests cs"

text \<open>An existing bucket whose \<open>max_size\<close> has changed.\<close>

definition resized_bucket :: resource_data where
  "resized_bucket =
     \<lparr>rd_id = ''my-bucket'',
      rd_attrs = [''bucket'' \<mapsto> TStr ''my-bucket'', ''max_size'' \<mapsto> TInt 1024],
      rd_changed = (\<lambda>k. k = ''max_size''),
      rd_is_new = False,
      rd_set_error = (\<lambda>k. None)\<rparr>"

text \<open>The number of calls to delete the bucket in a log.\<close>

fun is_delete_attempt :: "api_call \<Rightarrow> bool" where
  "is_delete_attempt (S3 operation bucket) = (operation = ''DeleteBucket'')"
| "is_delete_attempt c = False"

definition delete_attempts :: "api_call list \<Rightarrow> nat" where
  "delete_attempts cs = length (filter is_delete_attempt cs)"

text \<open>The S3 client finds the bucket; the storage API answers that it is not found.\<close>

definition api_gone_env :: "(unit, string) env" where
  "api_gone_env = quiet_env\<lparr>storage_Get := (\<lambda>name s. (Inl (GrpcStatus 5 ''bucket not found''), s))\<rparr>"

section \<open>Properties\<close>

subsection \<open>Helper facts\<close>

lemma strings_Contains_empty: "strings_Contains s [] = True"
  by (cases s) simp_all

lemma tagging_fill_from_map:
  "set ks \<subseteq> dom m \<Longrightarrow>
   tagging_fill (storageBucketTaggingFromMap ks m) out =
     Inr (\<lambda>k. if k \<in> set ks then m k else out k)"
proof (induction ks arbitrary: out)
  case Nil
  then show ?case by (simp add: storageBucketTaggingFromMap_def)
next
  case (Cons k ks)
  from Cons.prems obtain v where v: "m k = Some v" by auto
  from Cons.prems have sub: "set ks \<subseteq> dom m" by simp
  have "tagging_fill (storageBucketTaggingFromMap (k # ks) m) out
        = tagging_fill (storageBucketTaggingFromMap ks m) (out(k \<mapsto> v))"
    using v by (simp add: storageBucketTaggingFromMap_def)
  also have "\<dots> = Inr (\<lambda>k'. if k' \<in> set ks then m k' else (out(k \<mapsto> v)) k')"
    by (rule Cons.IH[OF sub])
  also have "(\<lambda>k'. if k' \<in> set ks then m k' else (out(k \<mapsto> v)) k')
        = (\<lambda>k'. if k' \<in> set (k # ks) then m k' else out k')"
    using v by auto
  finally show ?case .
qed

subsection \<open>Tags\<close>

text \<open>
  C9. Tag conversion round-trips: for a non-empty map \<open>m\<close> and any order \<open>ks\<close> in which
  the range visits its keys (the map is finite, its keys being those of the list),
  normalising the tag list made from \<open>m\<close> gives \<open>m\<close> again, a non-nil map; and
  \<open>storageBucketTaggingNormalize\<close> returns the nil map exactly when the tag list is empty.
\<close>

theorem tagging_roundtrip:
  "(m \<noteq> Map.empty \<and> set ks = dom m \<longrightarrow>
      storageBucketTaggingNormalize (storageBucketTaggingFromMap ks m) = Inr (Some m)) \<and>
   (storageBucketTaggingNormalize tags = Inr None \<longleftrightarrow> tags = [])"
proof (intro conjI impI)
  assume a: "m \<noteq> Map.empty \<and> set ks = dom m"
  then have "set ks \<noteq> {}" by (metis dom_eq_empty_conv)
  then have "ks \<noteq> []" by simp
  then have ne: "length (storageBucketTaggingFromMap ks m) \<noteq> 0"
    by (simp add: storageBucketTaggingFromMap_def)
  have "(\<lambda>k. if k \<in> set ks then m k else Map.empty k) = m"
    using a by (auto simp: fun_eq_iff domIff)
  with tagging_fill_from_map[of ks m Map.empty] a ne
  show "storageBucketTaggingNormalize (storageBucketTaggingFromMap ks m) = Inr (Some m)"
    by (simp add: storageBucketTaggingNormalize_def)
next
  show "storageBucketTaggingNormalize tags = Inr None \<longleftrightarrow> tags = []"
    by (auto simp: storageBucketTaggingNormalize_def split: sum.splits)
qed

theorem tagging_roundtrip_witness:
  "[''env'' \<mapsto> ''prod'', ''team'' \<mapsto> ''storage''] \<noteq> Map.empty \<and>
   set [''team'', ''env''] = dom [''env'' \<mapsto> ''prod'', ''team'' \<mapsto> ''storage''] \<and>
   storageBucketTaggingNormalize
     (storageBucketTaggingFromMap [''team'', ''env''] [''env'' \<mapsto> ''prod'', ''team'' \<mapsto> ''storage''])
     = Inr (Some [''env'' \<mapsto> ''prod'', ''team'' \<mapsto> ''storage''])"
proof -
  have h: "[''env'' \<mapsto> ''prod'', ''team'' \<mapsto> ''storage''] \<noteq> Map.empty \<and>
           set [''team'', ''env''] = dom [''env'' \<mapsto> ''prod'', ''team'' \<mapsto> ''storage'']"
    by auto
  with tagging_roundtrip[of "[''env'' \<mapsto> ''prod'', ''team'' \<mapsto> ''storage'']" "[''team'', ''env'']"]
  show ?thesis by blast
qed

subsection \<open>Delete\<close>

text \<open>
  C1. Idempotent delete: when the storage client is there and the retried call to delete
  the bucket ends with an \<open>awserr.Error\<close> of code \<open>NoSuchBucket\<close>, whatever its message
  and status, \<open>resourceYandexStorageBucketDelete\<close> returns nil, with the resource data as
  they were and no further call.
\<close>

theorem Delete_NoSuchBucket_is_success:
  assumes "getS3Client_error env = None"
    and "retryOnAwsCodes (retry_attempts env 1) [''AccessDenied'', ''Forbidden'']
           (no_output (s3Client_DeleteBucket env (d_Id d))) w
         = ((r, Some (AwsErr ''NoSuchBucket'' msg st)), w1)"
  shows "resourceYandexStorageBucketDelete env d w = Some (None, d, w1)"
  using assms
  by (subst resourceYandexStorageBucketDelete.simps) (simp add: strings_Contains_empty)

theorem Delete_NoSuchBucket_is_success_witness:
  "getS3Client_error gone_env = None \<and>
   retryOnAwsCodes (retry_attempts gone_env 1) [''AccessDenied'', ''Forbidden'']
      (no_output (s3Client_DeleteBucket gone_env (d_Id my_bucket))) no_calls
     = (((), Some (AwsErr ''NoSuchBucket'' ''The specified bucket does not exist'' (Some 404))),
        \<lparr>srv = (), calls = [S3 ''DeleteBucket'' ''my-bucket'']\<rparr>) \<and>
   resourceYandexStorageBucketDelete gone_env my_bucket no_calls
     = Some (None, my_bucket, \<lparr>srv = (), calls = [S3 ''DeleteBucket'' ''my-bucket'']\<rparr>)"
proof -
  have h1: "getS3Client_error gone_env = None"
    by (simp add: gone_env_def quiet_env_def)
  have h2: "retryOnAwsCodes (retry_attempts gone_env 1) [''AccessDenied'', ''Forbidden'']
      (no_output (s3Client_DeleteBucket gone_env (d_Id my_bucket))) no_calls
     = (((), Some (AwsErr ''NoSuchBucket'' ''The specified bucket does not exist'' (Some 404))),
        \<lparr>srv = (), calls = [S3 ''DeleteBucket'' ''my-bucket'']\<rparr>)"
    by (simp add: gone_env_def quiet_env_def no_output_def s3Client_DeleteBucket_def api_def
        d_Id_def my_bucket_def no_calls_def NoSuchBucket_def)
  from h1 h2 Delete_NoSuchBucket_is_success[OF h1 h2] show ?thesis by blast
qed

lemma isAWSErr_code:
  "isAWSErr err code message \<Longrightarrow> \<exists>m st. err = Some (AwsErr code m st)"
  by (cases "(err, code, message)" rule: isAWSErr.cases) auto

lemma not_both_codes:
  "isAWSErr err ''BucketNotEmpty'' [] \<Longrightarrow> \<not> isAWSErr err ''NoSuchBucket'' []"
  by (auto dest!: isAWSErr_code)

text \<open>
  Against the service that answers \<open>BucketNotEmpty\<close> to every attempt, each unfolding of
  the function ends in the call to itself, so no result is ever returned.
\<close>

lemma stubborn_never:
  assumes "resourceYandexStorageBucketDelete e d w = Some r"
  shows "\<not> (e = stubborn_env \<and> d = my_bucket)"
proof (rule resourceYandexStorageBucketDelete.raw_induct
    [where P = "\<lambda>e d w r. \<not> (e = stubborn_env \<and> d = my_bucket)", OF _ assms], goal_cases)
  case (1 f e d w r)
  show ?case
  proof
    assume ed: "e = stubborn_env \<and> d = my_bucket"
    with 1(2) have "f stubborn_env my_bucket
     \<lparr>srv = (), calls = calls w @ [S3 ''DeleteBucket'' ''my-bucket'', S3 ''ListObjectVersions'' ''my-bucket'',
        S3_DeleteObjects ''my-bucket'' []]\<rparr> = Some r"
      by (simp add: stubborn_env_def quiet_env_def my_bucket_def BucketNotEmpty_def
      no_output_def s3Client_DeleteBucket_def s3Client_ListObjectVersions_def s3Client_DeleteObjects_def
      api_def d_Id_def d_Get_def)
    from 1(1)[OF this] show False by simp
  qed
qed

lemma Delete_next_round:
  assumes "getS3Client_error env = None" and "purge_round env d w = Some w'"
  shows "resourceYandexStorageBucketDelete env d w = resourceYandexStorageBucketDelete env d w'"
  using assms
  by (subst resourceYandexStorageBucketDelete.simps)
     (auto simp: purge_round_def not_both_codes split: prod.splits option.splits if_splits)

lemma counting_progress: "purge_round counting_env my_bucket w = Some w' \<Longrightarrow> srv w' < srv w"
  by (auto simp: purge_round_def counting_env_def quiet_env_def my_bucket_def BucketNotEmpty_def
      no_output_def s3Client_DeleteBucket_def s3Client_ListObjectVersions_def s3Client_DeleteObjects_def
      api_def d_Id_def d_Get_def split: if_splits)

text \<open>
  C3, as the claim states it, fails: with \<open>force_destroy\<close> set and a service that reports
  \<open>BucketNotEmpty\<close> at every attempt while listing and deleting the object versions
  succeed, \<open>resourceYandexStorageBucketDelete\<close> does not return.
\<close>

theorem Delete_does_not_return_counterexample:
  "resourceYandexStorageBucketDelete stubborn_env my_bucket no_calls = None"
proof (cases "resourceYandexStorageBucketDelete stubborn_env my_bucket no_calls")
  case None
  then show ?thesis .
next
  case (Some r)
  from stubborn_never[OF this] show ?thesis by simp
qed

text \<open>
  The calls of a round and of the wait for the bucket to be gone, as far as attempts to
  delete the bucket go: only the retried call adds any, one for each try.
\<close>

lemma attempts_append: "delete_attempts (cs @ cs') = delete_attempts cs + delete_attempts cs'"
  by (simp add: delete_attempts_def)

lemma no_output_apply: "no_output f s = (case f s of (err, s') \<Rightarrow> (((), err), s'))"
  by (simp add: no_output_def)

lemma attempts_DeleteBucket:
  "no_output (s3Client_DeleteBucket env b) w = (r, w') \<Longrightarrow>
   delete_attempts (calls w') = Suc (delete_attempts (calls w))"
  by (auto simp: no_output_apply s3Client_DeleteBucket_def api_def delete_attempts_def split: prod.splits)

lemma attempts_retry:
  assumes "\<And>s r s'. f s = (r, s') \<Longrightarrow> delete_attempts (calls s') = Suc (delete_attempts (calls s))"
  shows "retryOnAwsCodes n codes f w = (r, w') \<Longrightarrow>
         delete_attempts (calls w') \<le> delete_attempts (calls w) + Suc n"
proof (induction n arbitrary: w)
  case 0
  with assms[of w r w'] show ?case by simp
next
  case (Suc n)
  obtain resp e w1 where c: "f w = ((resp, e), w1)" by (metis prod.exhaust)
  note a = assms[OF c]
  show ?case
  proof (cases "\<exists>err. e = Some err \<and> has_aws_code err codes")
    case True
    with Suc.prems c have "retryOnAwsCodes n codes f w1 = (r, w')" by auto
    from Suc.IH[OF this] a show ?thesis by simp
  next
    case False
    with Suc.prems c have "w' = w1" by (cases e) auto
    with a show ?thesis by simp
  qed
qed

lemma attempts_check:
  "bucket_gone_check env b w = (r, w') \<Longrightarrow> delete_attempts (calls w') = delete_attempts (calls w)"
  by (auto simp: bucket_gone_check_def s3Client_HeadBucket_def api_def delete_attempts_def
      split: prod.splits if_splits)

lemma attempts_subchecks:
  assumes "\<And>s r s'. check s = (r, s') \<Longrightarrow> delete_attempts (calls s') = delete_attempts (calls s)"
  shows "subchecks_loop check k s = (r, s') \<Longrightarrow> delete_attempts (calls s') = delete_attempts (calls s)"
proof (induction "10 - k" arbitrary: k s)
  case 0
  then show ?case by simp
next
  case (Suc n)
  then have k: "k < 10" by simp
  obtain ok e s1 where c: "check s = ((ok, e), s1)" by (metis prod.exhaust)
  note a = assms[OF c]
  show ?case
  proof (cases "e = None \<and> ok")
    case True
    with Suc.prems k c have "subchecks_loop check (Suc k) s1 = (r, s')" by simp
    moreover from Suc.hyps(2) have "n = 10 - Suc k" by simp
    ultimately have "delete_attempts (calls s') = delete_attempts (calls s1)" by (rule Suc.hyps(1)[rotated])
    with a show ?thesis by simp
  next
    case False
    with Suc.prems k c have "s' = s1" by (cases e) auto
    with a show ?thesis by simp
  qed
qed

lemma attempts_checks:
  assumes "\<And>s r s'. check s = (r, s') \<Longrightarrow> delete_attempts (calls s') = delete_attempts (calls s)"
  shows "checks_loop check c s = (r, s') \<Longrightarrow> delete_attempts (calls s') = delete_attempts (calls s)"
proof (induction "12 - c" arbitrary: c s)
  case 0
  then show ?case by simp
next
  case (Suc n)
  then have c: "c < 12" by simp
  obtain x s1 where sl: "subchecks_loop check 0 s = (x, s1)" by (metis prod.exhaust)
  note a = attempts_subchecks[OF assms sl]
  show ?case
  proof (cases "x = Inr False")
    case True
    with Suc.prems c sl have "checks_loop check (Suc c) s1 = (r, s')" by simp
    moreover from Suc.hyps(2) have "n = 12 - Suc c" by simp
    ultimately have "delete_attempts (calls s') = delete_attempts (calls s1)" by (rule Suc.hyps(1)[rotated])
    with a show ?thesis by simp
  next
    case False
    with Suc.prems c sl have "s' = s1" by (cases x) auto
    with a show ?thesis by simp
  qed
qed

lemma attempts_wait:
  "waitConditionStable (bucket_gone_check env b) w = (r, w') \<Longrightarrow>
   delete_attempts (calls w') = delete_attempts (calls w)"
  unfolding waitConditionStable_def by (rule attempts_checks[OF attempts_check])

lemma attempts_List:
  "s3Client_ListObjectVersions env b w = (r, w') \<Longrightarrow>
   delete_attempts (calls w') = delete_attempts (calls w)"
  by (auto simp: s3Client_ListObjectVersions_def api_def delete_attempts_def split: prod.splits)

lemma attempts_DeleteObjects:
  "s3Client_DeleteObjects env b objects w = (r, w') \<Longrightarrow>
   delete_attempts (calls w') = delete_attempts (calls w)"
  by (auto simp: s3Client_DeleteObjects_def api_def delete_attempts_def split: prod.splits)

lemma purge_round_worlds:
  assumes "purge_round env d w = Some w'"
  shows "\<exists>r w1 x w2 y.
           retryOnAwsCodes (retry_attempts env 1) [''AccessDenied'', ''Forbidden'']
             (no_output (s3Client_DeleteBucket env (d_Id d))) w = (r, w1) \<and>
           s3Client_ListObjectVersions env (as_string (d_Get d ''bucket'')) w1 = (x, w2) \<and>
           s3Client_DeleteObjects env (as_string (d_Get d ''bucket'')) y w2 = (None, w')"
  using assms
  by (auto simp: purge_round_def split: prod.splits option.splits if_splits)

lemma attempts_purge_round:
  assumes "purge_round env d w = Some w'"
  shows "delete_attempts (calls w') \<le> delete_attempts (calls w) + Suc (retry_attempts env 1)"
proof -
  from purge_round_worlds[OF assms] obtain r w1 x w2 y where
    rt: "retryOnAwsCodes (retry_attempts env 1) [''AccessDenied'', ''Forbidden'']
             (no_output (s3Client_DeleteBucket env (d_Id d))) w = (r, w1)" and
    l: "s3Client_ListObjectVersions env (as_string (d_Get d ''bucket'')) w1 = (x, w2)" and
    o: "s3Client_DeleteObjects env (as_string (d_Get d ''bucket'')) y w2 = (None, w')"
    by blast
  from attempts_retry[OF attempts_DeleteBucket rt] attempts_List[OF l] attempts_DeleteObjects[OF o]
  show ?thesis by simp
qed

lemma last_round_worlds:
  assumes "getS3Client_error env = None" and "purge_round env d w = None"
  shows "\<exists>r d' w' r1 w1.
           resourceYandexStorageBucketDelete env d w = Some (r, d', w') \<and>
           retryOnAwsCodes (retry_attempts env 1) [''AccessDenied'', ''Forbidden'']
             (no_output (s3Client_DeleteBucket env (d_Id d))) w = (r1, w1) \<and>
           (w' = w1 \<or>
            (\<exists>x. s3Client_ListObjectVersions env (as_string (d_Get d ''bucket'')) w1 = (x, w')) \<or>
            (\<exists>x w2 y z. s3Client_ListObjectVersions env (as_string (d_Get d ''bucket'')) w1 = (x, w2) \<and>
               s3Client_DeleteObjects env (as_string (d_Get d ''bucket'')) y w2 = (z, w')) \<or>
            (\<exists>x. waitConditionStable (bucket_gone_check env (d_Id d)) w1 = (x, w')))"
  using assms
  by (subst resourceYandexStorageBucketDelete.simps)
     (auto simp: purge_round_def split: prod.splits option.splits if_splits)

lemma attempts_last_round:
  assumes "getS3Client_error env \<noteq> None \<or> purge_round env d w = None"
  shows "\<exists>r d' w'. resourceYandexStorageBucketDelete env d w = Some (r, d', w') \<and>
           delete_attempts (calls w') \<le> delete_attempts (calls w) + Suc (retry_attempts env 1)"
proof (cases "getS3Client_error env")
  case (Some e)
  then show ?thesis by (subst resourceYandexStorageBucketDelete.simps) simp
next
  case None
  with assms have p: "purge_round env d w = None" by simp
  from last_round_worlds[OF None p] obtain r d' w' r1 w1 where
    res: "resourceYandexStorageBucketDelete env d w = Some (r, d', w')" and
    rt: "retryOnAwsCodes (retry_attempts env 1) [''AccessDenied'', ''Forbidden'']
             (no_output (s3Client_DeleteBucket env (d_Id d))) w = (r1, w1)" and
    w': "w' = w1 \<or>
            (\<exists>x. s3Client_ListObjectVersions env (as_string (d_Get d ''bucket'')) w1 = (x, w')) \<or>
            (\<exists>x w2 y z. s3Client_ListObjectVersions env (as_string (d_Get d ''bucket'')) w1 = (x, w2) \<and>
               s3Client_DeleteObjects env (as_string (d_Get d ''bucket'')) y w2 = (z, w')) \<or>
            (\<exists>x. waitConditionStable (bucket_gone_check env (d_Id d)) w1 = (x, w'))"
    by blast
  from w' have "delete_attempts (calls w') = delete_attempts (calls w1)"
    by (elim disjE exE conjE) (simp_all add: attempts_List attempts_DeleteObjects attempts_wait)
  with attempts_retry[OF attempts_DeleteBucket rt]
  have "delete_attempts (calls w') \<le> delete_attempts (calls w) + Suc (retry_attempts env 1)" by simp
  with res show ?thesis by blast
qed

text \<open>
  C3, amended. The cascade has no budget of its own; it ends when the purge makes
  progress. If every round after which the function calls itself lowers some measure
  \<open>rank\<close> of the world, a natural number (the number of object versions left, say), then
  \<open>resourceYandexStorageBucketDelete\<close> returns, from every world \<open>w\<close>, and the attempts
  to delete the bucket that it has added to the log by then are at most
  \<open>rank w + 1\<close> rounds of at most as many tries as the retry gives each, the first
  and the further ones that the time-out leaves room for.
\<close>

theorem Delete_returns_when_purging_progresses:
  assumes "\<And>w w'. purge_round env d w = Some w' \<Longrightarrow> rank w' < (rank w :: nat)"
  shows "\<exists>r d' w'. resourceYandexStorageBucketDelete env d w = Some (r, d', w') \<and>
           delete_attempts (calls w') \<le>
             delete_attempts (calls w) + Suc (rank w) * Suc (retry_attempts env 1)"
proof (induction "rank w" arbitrary: w rule: less_induct)
  case less
  show ?case
  proof (cases "getS3Client_error env \<noteq> None \<or> purge_round env d w = None")
    case True
    from attempts_last_round[OF this] obtain r d' w' where
      "resourceYandexStorageBucketDelete env d w = Some (r, d', w')"
      "delete_attempts (calls w') \<le> delete_attempts (calls w) + Suc (retry_attempts env 1)"
      by blast
    then show ?thesis by (intro exI[of _ r] exI[of _ d'] exI[of _ w']) simp
  next
    case False
    then obtain w1 where c: "getS3Client_error env = None" and p: "purge_round env d w = Some w1"
      by auto
    from assms[OF p] have lt: "rank w1 < rank w" .
    from less.hyps[OF lt] obtain r d' w' where
      res: "resourceYandexStorageBucketDelete env d w1 = Some (r, d', w')" and
      bound: "delete_attempts (calls w') \<le>
             delete_attempts (calls w1) + Suc (rank w1) * Suc (retry_attempts env 1)"
      by blast
    from lt have "Suc (rank w1) * Suc (retry_attempts env 1) + Suc (retry_attempts env 1)
                  \<le> Suc (rank w) * Suc (retry_attempts env 1)"
    proof -
      from lt have "Suc (Suc (rank w1)) \<le> Suc (rank w)" by simp
      then have "Suc (Suc (rank w1)) * Suc (retry_attempts env 1) \<le> Suc (rank w) * Suc (retry_attempts env 1)"
        by (rule mult_le_mono1)
      then show ?thesis by simp
    qed
    with bound attempts_purge_round[OF p]
    have "delete_attempts (calls w') \<le>
             delete_attempts (calls w) + Suc (rank w) * Suc (retry_attempts env 1)"
      by linarith
    with res Delete_next_round[OF c p] show ?thesis
      by (intro exI[of _ r] exI[of _ d'] exI[of _ w']) simp
  qed
qed

theorem Delete_returns_when_purging_progresses_witness:
  "\<exists>r d' w'.
     resourceYandexStorageBucketDelete counting_env my_bucket \<lparr>srv = 2, calls = []\<rparr> = Some (r, d', w') \<and>
     delete_attempts (calls w') \<le> 3"
proof -
  from Delete_returns_when_purging_progresses[of counting_env my_bucket srv "\<lparr>srv = 2, calls = []\<rparr>",
      OF counting_progress]
  obtain r d' w' where
    "resourceYandexStorageBucketDelete counting_env my_bucket \<lparr>srv = 2, calls = []\<rparr> = Some (r, d', w')"
    "delete_attempts (calls w') \<le>
       delete_attempts (calls \<lparr>srv = 2 :: nat, calls = []\<rparr>) +
       Suc (srv \<lparr>srv = 2 :: nat, calls = []\<rparr>) * Suc (retry_attempts counting_env 1)"
    by blast
  moreover have "delete_attempts (calls \<lparr>srv = 2 :: nat, calls = []\<rparr>) +
       Suc (srv \<lparr>srv = 2 :: nat, calls = []\<rparr>) * Suc (retry_attempts counting_env 1) = 3"
    by (simp add: delete_attempts_def counting_env_def quiet_env_def)
  ultimately show ?thesis by (intro exI[of _ r] exI[of _ d'] exI[of _ w']) simp
qed

subsection \<open>Read\<close>

lemmas read_defs =
  resourceYandexStorageBucketRead_def resourceYandexStorageBucketReadBasic_def
  ReadBasic_head_def ReadBasic_policy_def ReadBasic_cors_def ReadBasic_website_def
  ReadBasic_website_endpoint_def ReadBasic_acl_def websiteEndpoint_def
  handleS3BucketNotFoundError_def resourceYandexStorageBucketReadExtended_def
  retryFlakyS3Responses_def no_output_def
  s3Client_HeadBucket_def s3Client_GetBucketPolicy_def s3Client_get_def s3Client_GetBucketWebsite_def
  bucketAPI_Get_def bucketAPI_GetHTTPSConfig_def ReadExtended_set_bucket_def
  api_def d_Id_def d_SetId_def d_Get_def d_GetOk_def d_Set_def d_IsNewResource_def
  bucketDomainName_def codes_NotFound_def codes_PermissionDenied_def Let_def

text \<open>
  C2. A not-found error is a request failure with status 404 or an error with the gRPC
  status \<open>NotFound\<close>. When the storage client is there and the retried lookup of the
  bucket with \<open>HeadBucket\<close> ends with a not-found error, \<open>resourceYandexStorageBucketRead\<close>
  returns nil and leaves the resource data with the identifier set to the empty string
  and nothing else changed; the extended read makes no call then. When the basic read
  has found the bucket and the lookup of the bucket through the storage API fails with a
  not-found error, the read returns nil as well, with the identifier set to the empty
  string.
\<close>

theorem Read_not_found_clears_id:
  "(getS3Client_error env = None \<and>
    retryFlakyS3Responses env (no_output (s3Client_HeadBucket env (d_Id d))) w = ((r, Some err), w1) \<and>
    not_found err \<longrightarrow>
      resourceYandexStorageBucketRead env d w = Inr (None, d_SetId d [], w1)) \<and>
   (resourceYandexStorageBucketReadBasic env d w = Inr (None, d2, w2) \<and> d_Id d2 \<noteq> [] \<and>
    bucketAPI_Get env (as_string (d_Get d2 ''bucket'')) w2 = (Inl err', w3) \<and>
    not_found err' \<longrightarrow>
      resourceYandexStorageBucketRead env d w = Inr (None, d_SetId d2 [], w3)) \<and>
   d_Id (d_SetId d0 []) = []"
  by (simp add: resourceYandexStorageBucketRead_def resourceYandexStorageBucketReadBasic_def
      ReadBasic_head_def handleS3BucketNotFoundError_def resourceYandexStorageBucketReadExtended_def
      not_found_def d_Id_def d_SetId_def)

lemma api_gone_basic:
  "\<exists>d2 w2. resourceYandexStorageBucketReadBasic api_gone_env my_bucket no_calls = Inr (None, d2, w2) \<and>
     d_Id d2 = ''my-bucket'' \<and> d_Get d2 ''bucket'' = TStr ''my-bucket''"
  by (simp add: read_defs ReadBasic_versioning_def ReadBasic_object_lock_def ReadBasic_logging_def
      ReadBasic_lifecycle_def ReadBasic_encryption_def ReadBasic_tagging_def
      s3Client_GetBucketTagging_def storageBucketTaggingNormalize_def
      api_gone_env_def quiet_env_def my_bucket_def no_calls_def)

theorem Read_not_found_clears_id_witness:
  "resourceYandexStorageBucketRead gone_env my_bucket no_calls
     = Inr (None, d_SetId my_bucket [], \<lparr>srv = (), calls = [S3 ''HeadBucket'' ''my-bucket'']\<rparr>) \<and>
   (\<exists>d2 w2 w3.
      resourceYandexStorageBucketReadBasic api_gone_env my_bucket no_calls = Inr (None, d2, w2) \<and>
      bucketAPI_Get api_gone_env (as_string (d_Get d2 ''bucket'')) w2
        = (Inl (GrpcStatus 5 ''bucket not found''), w3) \<and>
      resourceYandexStorageBucketRead api_gone_env my_bucket no_calls = Inr (None, d_SetId d2 [], w3)) \<and>
   d_Id (d_SetId my_bucket []) = []"
proof -
  have h1: "getS3Client_error gone_env = None \<and>
    retryFlakyS3Responses gone_env (no_output (s3Client_HeadBucket gone_env (d_Id my_bucket))) no_calls
     = (((), Some NotFound), \<lparr>srv = (), calls = [S3 ''HeadBucket'' ''my-bucket'']\<rparr>) \<and>
    not_found NotFound"
    by (simp add: retryFlakyS3Responses_def gone_env_def quiet_env_def no_output_def
        s3Client_HeadBucket_def api_def d_Id_def my_bucket_def no_calls_def not_found_def NotFound_def)
  from api_gone_basic obtain d2 w2 where
    b: "resourceYandexStorageBucketReadBasic api_gone_env my_bucket no_calls = Inr (None, d2, w2)"
    and i: "d_Id d2 = ''my-bucket''" and n: "d_Get d2 ''bucket'' = TStr ''my-bucket''" by blast
  obtain w3 where g: "bucketAPI_Get api_gone_env (as_string (d_Get d2 ''bucket'')) w2
        = (Inl (GrpcStatus 5 ''bucket not found''), w3)"
    by (simp add: bucketAPI_Get_def api_def api_gone_env_def quiet_env_def)
  have nf: "not_found (GrpcStatus 5 ''bucket not found'')"
    by (simp add: not_found_def codes_NotFound_def)
  from i have ne: "d_Id d2 \<noteq> []" by simp
  note t = Read_not_found_clears_id[of gone_env my_bucket no_calls "()" NotFound
      "\<lparr>srv = (), calls = [S3 ''HeadBucket'' ''my-bucket'']\<rparr>"]
  note t2 = Read_not_found_clears_id[of api_gone_env my_bucket no_calls _ _ _ d2 w2
      "GrpcStatus 5 ''bucket not found''" w3]
  from t h1 have a: "resourceYandexStorageBucketRead gone_env my_bucket no_calls
     = Inr (None, d_SetId my_bucket [], \<lparr>srv = (), calls = [S3 ''HeadBucket'' ''my-bucket'']\<rparr>)"
    by blast
  from t2 b ne g nf have c: "resourceYandexStorageBucketRead api_gone_env my_bucket no_calls
      = Inr (None, d_SetId d2 [], w3)" by blast
  from t have e: "d_Id (d_SetId my_bucket []) = []" by blast
  from a b g c e show ?thesis by blast
qed



lemma carries_Errorf: "Inr e \<in> set args \<Longrightarrow> carries (Errorf f args) e"
  by simp





subsection \<open>Update\<close>

lemma update_requests_append:
  "update_requests (cs @ cs') = update_requests cs @ update_requests cs'"
  by (induction cs rule: update_requests.induct) simp_all

lemma dom_changeHandlers:
  "dom changeHandlers = {''default_storage_class'', ''max_size'', ''anonymous_access_flags''}"
  by (auto simp: changeHandlers_def split: if_splits)

lemma range_paths:
  assumes "set ks \<subseteq> dom changeHandlers" and "\<not> (d_IsNewResource d \<and> sdk)"
  shows "snd (range_changeHandlers d sdk ks (request, paths)) = paths @ filter (d_HasChange d) ks"
  using assms
proof (induction ks arbitrary: request paths)
  case Nil
  then show ?case by simp
next
  case (Cons k ks)
  from Cons.prems obtain h where h: "changeHandlers k = Some h" by auto
  from Cons.prems have sub: "set ks \<subseteq> dom changeHandlers" by simp
  show ?case
  proof (cases "d_HasChange d k")
    case True
    with Cons.prems(2)
    have "handleChange d sdk k h (request, paths) = (h (d_Get d k) request, paths @ [k])"
      by (auto simp: handleChange_def)
    with h True Cons.IH[OF sub Cons.prems(2), of "h (d_Get d k) request" "paths @ [k]"]
    show ?thesis by simp
  next
    case False
    then have "handleChange d sdk k h (request, paths) = (request, paths)"
      by (simp add: handleChange_def)
    with h False Cons.IH[OF sub Cons.prems(2), of request paths] show ?thesis by simp
  qed
qed

lemma handler_keeps_name:
  "changeHandlers k = Some h \<Longrightarrow> ur_Name (h v request) = ur_Name request"
  by (auto simp: changeHandlers_def split: if_splits)

lemma range_name:
  "ur_Name (fst (range_changeHandlers d sdk ks (request, paths))) = ur_Name request"
proof (induction ks arbitrary: request paths)
  case Nil
  then show ?case by simp
next
  case (Cons k ks)
  show ?case
  proof (cases "changeHandlers k")
    case None
    with Cons.IH show ?thesis by simp
  next
    case (Some h)
    with Cons.IH handler_keeps_name[OF Some] show ?thesis
      by (simp add: handleChange_def)
  qed
qed

lemma fieldmask_ok:
  assumes "set paths \<subseteq> {''default_storage_class'', ''max_size'', ''anonymous_access_flags''}"
  shows "fieldmaskpb_New paths = Inr paths"
proof -
  have "{''default_storage_class'', ''max_size'', ''anonymous_access_flags''}
          \<subseteq> set UpdateBucketRequest_fields"
    by (simp add: UpdateBucketRequest_fields_def)
  with assms have "\<forall>p\<in>set paths. p \<in> set UpdateBucketRequest_fields" by blast
  then have "filter (\<lambda>p. p \<notin> set UpdateBucketRequest_fields) paths = []"
    by (simp add: filter_empty_conv)
  then show ?thesis by (simp add: fieldmaskpb_New_def)
qed

lemma https_no_update:
  "UpdateExtended_https env bucket d w = (e, d', w') \<Longrightarrow>
   update_requests (calls w') = update_requests (calls w)"
  by (auto simp: UpdateExtended_https_def operation_outcome_def api_def
      bucketAPI_SetHTTPSConfig_def bucketAPI_DeleteHTTPSConfig_def update_requests_append
      split: if_splits prod.splits option.splits tf_value.splits list.splits bool.splits)

lemma outcome_world: "operation_outcome d r w = Some (e, d', w') \<Longrightarrow> w' = w"
  by (auto simp: operation_outcome_def split: prod.splits option.splits bool.splits)

lemma UpdateExtended_requests:
  assumes "d_Id d \<noteq> []"
    and "\<not> (d_IsNewResource d \<and> resourceYandexStorageRequireExternalSDK d)"
    and "set (range_order env) \<subseteq> dom changeHandlers"
    and "fieldmaskpb_New (filter (d_HasChange d) (range_order env)) = Inr (filter (d_HasChange d) (range_order env))"
    and "resourceYandexStorageBucketUpdateExtended env d w = (err, d', w')"
  shows "if filter (d_HasChange d) (range_order env) = []
         then update_requests (calls w') = update_requests (calls w)
         else \<exists>request.
                update_requests (calls w') = update_requests (calls w) @ [request] \<and>
                ur_Name request = as_string (d_Get d ''bucket'') \<and>
                ur_UpdateMask request = Some (filter (d_HasChange d) (range_order env))"
proof -
  let ?init = "\<lparr>ur_Name = as_string (d_Get d ''bucket''), ur_DefaultStorageClass = [], ur_MaxSize = 0,
                   ur_AnonymousAccessFlags = None, ur_UpdateMask = None\<rparr>"
  obtain request paths where rc:
    "range_changeHandlers d (resourceYandexStorageRequireExternalSDK d) (range_order env) (?init, [])
       = (request, paths)" by (metis prod.exhaust)
  from range_paths[OF assms(3) assms(2), of ?init "[]"] rc
  have paths: "paths = filter (d_HasChange d) (range_order env)" by simp
  show ?thesis
  proof (cases "paths = []")
    case True
    with assms(1,5) rc have "UpdateExtended_https env (as_string (d_Get d ''bucket'')) d w = (err, d', w')"
      by (simp add: resourceYandexStorageBucketUpdateExtended_def Let_def)
    from https_no_update[OF this] True paths show ?thesis by simp
  next
    case ne: False
    have fm: "fieldmaskpb_New paths = Inr paths"
      using assms(4) paths by simp
    from range_name[of d "resourceYandexStorageRequireExternalSDK d" "range_order env" ?init "[]"] rc
    have name: "ur_Name request = as_string (d_Get d ''bucket'')" by simp
    let ?req = "request\<lparr>ur_UpdateMask := Some paths\<rparr>"
    obtain r w1 where up: "bucketAPI_Update env ?req w = (r, w1)" by (metis prod.exhaust)
    then have log: "calls w1 = calls w @ [Storage_Update ?req]"
      by (auto simp: bucketAPI_Update_def api_def split: prod.splits)
    have after: "update_requests (calls w') = update_requests (calls w1)"
    proof (cases "operation_outcome d r w1")
      case None
      with assms(1,5) rc ne fm up
      have "UpdateExtended_https env (as_string (d_Get d ''bucket'')) d w1 = (err, d', w')"
        by (simp add: resourceYandexStorageBucketUpdateExtended_def Let_def)
      then show ?thesis by (rule https_no_update)
    next
      case (Some res)
      with assms(1,5) rc ne fm up have "res = (err, d', w')"
        by (simp add: resourceYandexStorageBucketUpdateExtended_def Let_def)
      with Some outcome_world[of d r w1 err d' w'] show ?thesis by simp
    qed
    have "update_requests (calls w') = update_requests (calls w) @ [?req]"
      using after log by (simp add: update_requests_append)
    moreover have "ur_Name ?req = as_string (d_Get d ''bucket'')" using name by simp
    moreover have "ur_UpdateMask ?req = Some paths" by simp
    ultimately have "\<exists>request.
                update_requests (calls w') = update_requests (calls w) @ [request] \<and>
                ur_Name request = as_string (d_Get d ''bucket'') \<and>
                ur_UpdateMask request = Some paths"
      by blast
    with ne paths show ?thesis by simp
  qed
qed

text \<open>
  C5. Let the resource have an identifier and not be a new resource created through
  the SDK, and let the range visit each of the three extended parameters once, in any
  order. If none of them has changed, the extended update sends no update request. If
  one has, it sends exactly one, for the bucket, whose field mask holds each changed
  parameter once and no other path.
\<close>

theorem UpdateExtended_field_mask:
  assumes "d_Id d \<noteq> []"
    and "\<not> (d_IsNewResource d \<and> resourceYandexStorageRequireExternalSDK d)"
    and "distinct (range_order env)"
    and "set (range_order env) = {''default_storage_class'', ''max_size'', ''anonymous_access_flags''}"
    and "resourceYandexStorageBucketUpdateExtended env d w = (err, d', w')"
  shows "if \<not> d_HasChange d ''default_storage_class'' \<and> \<not> d_HasChange d ''max_size'' \<and>
            \<not> d_HasChange d ''anonymous_access_flags''
         then update_requests (calls w') = update_requests (calls w)
         else \<exists>request updateMask.
                update_requests (calls w') = update_requests (calls w) @ [request] \<and>
                ur_Name request = as_string (d_Get d ''bucket'') \<and>
                ur_UpdateMask request = Some updateMask \<and> distinct updateMask \<and>
                set updateMask = {p \<in> {''default_storage_class'', ''max_size'', ''anonymous_access_flags''}.
                                   d_HasChange d p}"
proof -
  let ?paths = "filter (d_HasChange d) (range_order env)"
  have sub: "set (range_order env) \<subseteq> dom changeHandlers"
    unfolding assms(4) dom_changeHandlers by (rule subset_refl)
  have "set ?paths \<subseteq> set (range_order env)" by (rule filter_is_subset)
  then have "set ?paths \<subseteq> {''default_storage_class'', ''max_size'', ''anonymous_access_flags''}"
    unfolding assms(4) .
  then have fm: "fieldmaskpb_New ?paths = Inr ?paths" by (rule fieldmask_ok)
  have "(?paths = []) = (\<forall>p\<in>set (range_order env). \<not> d_HasChange d p)"
    by (simp only: filter_empty_conv)
  also have "\<dots> = (\<not> d_HasChange d ''default_storage_class'' \<and> \<not> d_HasChange d ''max_size'' \<and>
            \<not> d_HasChange d ''anonymous_access_flags'')"
    unfolding assms(4) by (simp only: ball_simps simp_thms)
  finally have none: "(?paths = []) = (\<not> d_HasChange d ''default_storage_class'' \<and>
      \<not> d_HasChange d ''max_size'' \<and> \<not> d_HasChange d ''anonymous_access_flags'')" .
  have dp: "distinct ?paths" using assms(3) by (rule distinct_filter)
  have "set ?paths = {p \<in> set (range_order env). d_HasChange d p}" by (rule set_filter)
  then have sp: "set ?paths = {p \<in> {''default_storage_class'', ''max_size'', ''anonymous_access_flags''}.
                                   d_HasChange d p}"
    unfolding assms(4) .
  note main = UpdateExtended_requests[OF assms(1) assms(2) sub fm assms(5)]
  show ?thesis
  proof (cases "?paths = []")
    case True
    with main have t: "update_requests (calls w') = update_requests (calls w)" by (simp only: if_True)
    from True none have c: "\<not> d_HasChange d ''default_storage_class'' \<and>
      \<not> d_HasChange d ''max_size'' \<and> \<not> d_HasChange d ''anonymous_access_flags''" by blast
    show ?thesis unfolding if_P[OF c] by (rule t)
  next
    case False
    with main obtain request where r: "update_requests (calls w') = update_requests (calls w) @ [request]"
      "ur_Name request = as_string (d_Get d ''bucket'')" "ur_UpdateMask request = Some ?paths"
      by (simp only: if_False) blast
    from False none have n: "\<not> (\<not> d_HasChange d ''default_storage_class'' \<and>
      \<not> d_HasChange d ''max_size'' \<and> \<not> d_HasChange d ''anonymous_access_flags'')" by blast
    from r dp sp have e: "\<exists>request updateMask.
                update_requests (calls w') = update_requests (calls w) @ [request] \<and>
                ur_Name request = as_string (d_Get d ''bucket'') \<and>
                ur_UpdateMask request = Some updateMask \<and> distinct updateMask \<and>
                set updateMask = {p \<in> {''default_storage_class'', ''max_size'', ''anonymous_access_flags''}.
                                   d_HasChange d p}"
      by (intro exI[of _ request] exI[of _ ?paths] conjI)
    show ?thesis unfolding if_not_P[OF n] by (rule e)
  qed
qed

theorem UpdateExtended_field_mask_witness:
  "d_Id resized_bucket \<noteq> [] \<and>
   \<not> (d_IsNewResource resized_bucket \<and> resourceYandexStorageRequireExternalSDK resized_bucket) \<and>
   distinct (range_order (quiet_env :: (unit, string) env)) \<and>
   set (range_order (quiet_env :: (unit, string) env))
     = {''default_storage_class'', ''max_size'', ''anonymous_access_flags''} \<and>
   resourceYandexStorageBucketUpdateExtended quiet_env resized_bucket no_calls
     = (None, resized_bucket,
        \<lparr>srv = (),
          calls = [Storage_Update \<lparr>ur_Name = ''my-bucket'', ur_DefaultStorageClass = [], ur_MaxSize = 1024,
                     ur_AnonymousAccessFlags = None, ur_UpdateMask = Some [''max_size'']\<rparr>]\<rparr>) \<and>
   (if \<not> d_HasChange resized_bucket ''default_storage_class'' \<and> \<not> d_HasChange resized_bucket ''max_size'' \<and>
       \<not> d_HasChange resized_bucket ''anonymous_access_flags''
    then update_requests
           [Storage_Update \<lparr>ur_Name = ''my-bucket'', ur_DefaultStorageClass = [], ur_MaxSize = 1024,
              ur_AnonymousAccessFlags = None, ur_UpdateMask = Some [''max_size'']\<rparr>]
         = update_requests []
    else \<exists>request updateMask.
           update_requests
             [Storage_Update \<lparr>ur_Name = ''my-bucket'', ur_DefaultStorageClass = [], ur_MaxSize = 1024,
                ur_AnonymousAccessFlags = None, ur_UpdateMask = Some [''max_size'']\<rparr>]
             = update_requests [] @ [request] \<and>
           ur_Name request = as_string (d_Get resized_bucket ''bucket'') \<and>
           ur_UpdateMask request = Some updateMask \<and> distinct updateMask \<and>
           set updateMask = {p \<in> {''default_storage_class'', ''max_size'', ''anonymous_access_flags''}.
                              d_HasChange resized_bucket p})"
proof -
  have h1: "d_Id resized_bucket \<noteq> []"
    by (simp add: d_Id_def resized_bucket_def)
  have h2: "\<not> (d_IsNewResource resized_bucket \<and> resourceYandexStorageRequireExternalSDK resized_bucket)"
    by (simp add: d_IsNewResource_def resized_bucket_def)
  have h3: "distinct (range_order (quiet_env :: (unit, string) env))"
    by (simp add: quiet_env_def)
  have h4: "set (range_order (quiet_env :: (unit, string) env))
     = {''default_storage_class'', ''max_size'', ''anonymous_access_flags''}"
    by (simp add: quiet_env_def)
  have h5: "resourceYandexStorageBucketUpdateExtended quiet_env resized_bucket no_calls
     = (None, resized_bucket,
        \<lparr>srv = (),
          calls = [Storage_Update \<lparr>ur_Name = ''my-bucket'', ur_DefaultStorageClass = [], ur_MaxSize = 1024,
                     ur_AnonymousAccessFlags = None, ur_UpdateMask = Some [''max_size'']\<rparr>]\<rparr>)"
    by (simp add: resourceYandexStorageBucketUpdateExtended_def resourceYandexStorageRequireExternalSDK_def
        UpdateExtended_https_def operation_outcome_def changeHandlers_def handleChange_def
        fieldmaskpb_New_def UpdateBucketRequest_fields_def bucketAPI_Update_def api_def
        d_Id_def d_Get_def d_GetOk_def d_HasChange_def d_IsNewResource_def Let_def
        quiet_env_def resized_bucket_def no_calls_def)
  have e1: "calls \<lparr>srv = (),
          calls = [Storage_Update \<lparr>ur_Name = ''my-bucket'', ur_DefaultStorageClass = [], ur_MaxSize = 1024,
                     ur_AnonymousAccessFlags = None, ur_UpdateMask = Some [''max_size'']\<rparr>]\<rparr>
     = [Storage_Update \<lparr>ur_Name = ''my-bucket'', ur_DefaultStorageClass = [], ur_MaxSize = 1024,
                     ur_AnonymousAccessFlags = None, ur_UpdateMask = Some [''max_size'']\<rparr>]"
    by simp
  have e2: "calls no_calls = []"
    by (simp add: no_calls_def)
  note c = UpdateExtended_field_mask[OF h1 h2 h3 h4 h5, unfolded e1 e2]
  show ?thesis
    by (rule conjI[OF h1 conjI[OF h2 conjI[OF h3 conjI[OF h4 conjI[OF h5 c]]]]])
qed

subsection \<open>Create\<close>


lemma d_Set_id_snd [simp]: "rd_id (snd (d_Set d k v)) = rd_id d"
  by (simp add: d_Set_def split: option.splits)















lemma id_set_bucket [simp]: "rd_id (ReadExtended_set_bucket d bucket) = rd_id d"
  by (simp add: ReadExtended_set_bucket_def Let_def)













subsection \<open>Waiting for a condition to become stable\<close>

lemma subchecks_trace:
  assumes "subchecks_loop (traced check) k (s, tr) = (r, (s', tr'))" and "k \<le> 10"
  shows "\<exists>new. tr' = tr @ new \<and> round_outcome k r new"
  using assms
proof (induction "traced check" k "(s, tr)" arbitrary: s tr rule: subchecks_loop.induct)
  case (1 k s tr)
  show ?case
  proof (cases "k < 10")
    case False
    with "1.prems" show ?thesis by (auto simp: round_outcome_def)
  next
    case True
    obtain ok err s1 where c: "check s = ((ok, err), s1)" by (metis prod.exhaust)
    show ?thesis
    proof (cases err)
      case (Some e)
      with True c "1.prems" show ?thesis
        by (intro exI[of _ "[(ok, Some e)]"]) (auto simp: traced_def round_outcome_def)
    next
      case None
      show ?thesis
      proof (cases ok)
        case False
        with True c None "1.prems" show ?thesis
          by (intro exI[of _ "[(False, None)]"]) (auto simp: traced_def round_outcome_def)
      next
        case ok: True
        have tc: "traced check (s, tr) = ((True, None), (s1, tr @ [(True, None)]))"
          using c None ok by (simp add: traced_def)
        have rec: "subchecks_loop (traced check) (Suc k) (s1, tr @ [(True, None)]) = (r, (s', tr'))"
          using "1.prems" True tc by simp
        from True have k': "Suc k \<le> 10" by simp
        from "1.hyps"[OF True tc[symmetric] _ _ _ rec k']
        obtain new where n: "tr' = (tr @ [(True, None)]) @ new" "round_outcome (Suc k) r new"
          by auto
        from n(2) have "round_outcome k r ((True, None) # new)"
          by (auto simp: round_outcome_def split: sum.splits if_splits)
        with n(1) show ?thesis by (intro exI[of _ "(True, None) # new"]) simp
      qed
    qed
  qed
qed

lemma wait_outcome_error:
  assumes "round_outcome 0 (Inl e) new" and "0 < n"
  shows "wait_outcome n (Some e) new"
proof -
  from assms(1) have ne: "new \<noteq> []" and l: "snd (last new) = Some e"
    and b: "\<forall>x\<in>set (butlast new). x = (True, None)" and len: "length new \<le> 10"
    by (auto simp: round_outcome_def)
  have "last new \<in> set new" using ne by simp
  with l have "\<not> (\<forall>x\<in>set new. snd x = None)" by force
  with ne l b len assms(2) show ?thesis
    by (auto simp: wait_outcome_def)
qed

lemma wait_outcome_ok:
  assumes "round_outcome 0 (Inr True) new" and "0 < n"
  shows "wait_outcome n None new"
proof -
  from assms(1) have len: "length new = 10" and a: "\<forall>x\<in>set new. x = (True, None)"
    by (auto simp: round_outcome_def)
  from len have ne: "new \<noteq> []" by auto
  then have "last new \<in> set new" by simp
  with a have l: "snd (last new) = None" by force
  have b: "\<forall>x\<in>set (butlast new). snd x = None"
  proof
    fix x assume "x \<in> set (butlast new)"
    then have "x \<in> set new" by (rule in_set_butlastD)
    with a show "snd x = None" by force
  qed
  have d: "\<forall>x\<in>set (drop (length new - 10) new). x = (True, None)"
  proof
    fix x assume "x \<in> set (drop (length new - 10) new)"
    then have "x \<in> set new" by (rule in_set_dropD)
    with a show "x = (True, None)" by blast
  qed
  from len l b d assms(2) show ?thesis
    by (simp add: wait_outcome_def)
qed

lemma failed_round_parts:
  assumes "new \<noteq> []" and "last new = (False, None)" and "\<forall>x\<in>set (butlast new). x = (True, None)"
  shows "length (filter (\<lambda>x. \<not> fst x) new) = 1" and "\<forall>x\<in>set new. snd x = None"
proof -
  have split: "new = butlast new @ [(False, None)]"
    using assms(1,2) by (metis append_butlast_last_id)
  have none: "filter (\<lambda>x. \<not> fst x) (butlast new) = []"
    using assms(3) by (auto simp: filter_empty_conv)
  have "filter (\<lambda>x. \<not> fst x) new
        = filter (\<lambda>x. \<not> fst x) (butlast new) @ filter (\<lambda>x. \<not> fst x) [(False, None)]"
    by (subst split) (simp only: filter_append)
  with none show "length (filter (\<lambda>x. \<not> fst x) new) = 1" by simp
  have "set new = set (butlast new) \<union> {(False, None)}"
    by (subst split) simp
  with assms(3) show "\<forall>x\<in>set new. snd x = None" by auto
qed

lemma wait_outcome_next:
  assumes r: "round_outcome 0 (Inr False) new1" and w: "wait_outcome n res new2"
  shows "wait_outcome (Suc n) res (new1 @ new2)"
proof -
  from r have ne: "new1 \<noteq> []" and l: "last new1 = (False, None)"
    and b: "\<forall>x\<in>set (butlast new1). x = (True, None)" and len: "length new1 \<le> 10"
    by (auto simp: round_outcome_def)
  note parts = failed_round_parts[OF ne l b]
  have c1: "length (new1 @ new2) \<le> 10 * Suc n"
    using len w by (simp add: wait_outcome_def)
  have c2: "res = None \<longrightarrow> 10 \<le> length (new1 @ new2) \<and>
      (\<forall>x\<in>set (drop (length (new1 @ new2) - 10) (new1 @ new2)). x = (True, None))"
  proof
    assume "res = None"
    with w have g: "10 \<le> length new2" "\<forall>x\<in>set (drop (length new2 - 10) new2). x = (True, None)"
      by (auto simp: wait_outcome_def)
    from g(1) have "drop (length (new1 @ new2) - 10) (new1 @ new2) = drop (length new2 - 10) new2"
      by simp
    with g show "10 \<le> length (new1 @ new2) \<and>
      (\<forall>x\<in>set (drop (length (new1 @ new2) - 10) (new1 @ new2)). x = (True, None))"
      by simp
  qed
  have c3: "\<forall>x\<in>set (butlast (new1 @ new2)). snd x = None"
    using parts(2) w by (auto simp: wait_outcome_def butlast_append dest: in_set_butlastD)
  have c4: "new1 @ new2 \<noteq> [] \<and> snd (last (new1 @ new2)) \<noteq> None \<longrightarrow> res = snd (last (new1 @ new2))"
    using w l by (cases "new2 = []") (auto simp: wait_outcome_def)
  have c5: "res \<noteq> None \<and> (\<forall>x\<in>set (new1 @ new2). snd x = None) \<longrightarrow>
        res = Some (Errorf ''timeout exceeded'' []) \<and>
        length (filter (\<lambda>x. \<not> fst x) (new1 @ new2)) = Suc n"
    using w parts(1) by (auto simp: wait_outcome_def)
  from c1 c2 c3 c4 c5 show ?thesis
    unfolding wait_outcome_def by blast
qed

lemma checks_trace:
  assumes "checks_loop (traced check) c (s, tr) = (res, (s', tr'))" and "c \<le> 12"
  shows "\<exists>new. tr' = tr @ new \<and> wait_outcome (12 - c) res new"
  using assms
proof (induction "traced check" c "(s, tr)" arbitrary: s tr rule: checks_loop.induct)
  case (1 c s tr)
  show ?case
  proof (cases "c < 12")
    case False
    with "1.prems" show ?thesis by (auto simp: wait_outcome_def)
  next
    case True
    obtain r s1 tr1 where sl: "subchecks_loop (traced check) 0 (s, tr) = (r, (s1, tr1))"
      by (metis prod.exhaust)
    from subchecks_trace[OF sl] obtain new1 where n1: "tr1 = tr @ new1" "round_outcome 0 r new1"
      by auto
    show ?thesis
    proof (cases r)
      case (Inl e)
      with "1.prems" True sl have eq: "res = Some e" "tr' = tr1" by auto
      from wait_outcome_error[of e new1 "12 - c"] n1(2) Inl True
      have "wait_outcome (12 - c) res new1" using eq by simp
      then show ?thesis using n1(1) eq by auto
    next
      case (Inr allOk)
      show ?thesis
      proof (cases allOk)
        case True
        with "1.prems" \<open>c < 12\<close> sl Inr have eq: "res = None" "tr' = tr1" by auto
        from wait_outcome_ok[of new1 "12 - c"] n1(2) Inr True \<open>c < 12\<close>
        have "wait_outcome (12 - c) res new1" using eq by simp
        then show ?thesis using n1(1) eq by auto
      next
        case False
        with "1.prems" \<open>c < 12\<close> sl Inr
        have rec: "checks_loop (traced check) (Suc c) (s1, tr1) = (res, (s', tr'))" by auto
        from \<open>c < 12\<close> have c': "Suc c \<le> 12" by simp
        from "1.hyps"[OF \<open>c < 12\<close> sl[symmetric] Inr False rec c']
        obtain new2 where n2: "tr' = tr1 @ new2" "wait_outcome (12 - Suc c) res new2"
          by auto
        from wait_outcome_next[OF _ n2(2), of new1] n1(2) Inr False
        have "wait_outcome (Suc (12 - Suc c)) res (new1 @ new2)" by simp
        moreover have "Suc (12 - Suc c) = 12 - c" using \<open>c < 12\<close> by simp
        ultimately show ?thesis using n1(1) n2(1) by auto
      qed
    qed
  qed
qed

text \<open>Keeping the trace changes neither the result nor the state the checks leave.\<close>

lemma subchecks_untraced:
  "subchecks_loop (traced check) k (s, tr) = (r, (s', tr')) \<Longrightarrow> subchecks_loop check k s = (r, s')"
proof (induction check k s arbitrary: tr rule: subchecks_loop.induct)
  case (1 check k s)
  show ?case
  proof (cases "k < 10")
    case False
    with "1.prems" show ?thesis by simp
  next
    case True
    obtain ok err s1 where c: "check s = ((ok, err), s1)" by (metis prod.exhaust)
    then have tc: "traced check (s, tr) = ((ok, err), (s1, tr @ [(ok, err)]))"
      by (simp add: traced_def)
    show ?thesis
    proof (cases "err = None \<and> ok")
      case False
      with True c tc "1.prems" show ?thesis by (cases err) auto
    next
      case ok: True
      with True tc "1.prems"
      have "subchecks_loop (traced check) (Suc k) (s1, tr @ [(ok, err)]) = (r, (s', tr'))" by simp
      from "1.IH"[OF True c[symmetric] refl _ _ this] ok
      have "subchecks_loop check (Suc k) s1 = (r, s')" by simp
      with True c ok show ?thesis by simp
    qed
  qed
qed

lemma checks_untraced:
  "checks_loop (traced check) c (s, tr) = (res, (s', tr')) \<Longrightarrow> checks_loop check c s = (res, s')"
proof (induction check c s arbitrary: tr rule: checks_loop.induct)
  case (1 check c s)
  show ?case
  proof (cases "c < 12")
    case False
    with "1.prems" show ?thesis by simp
  next
    case True
    obtain r s1 tr1 where sl: "subchecks_loop (traced check) 0 (s, tr) = (r, (s1, tr1))"
      by (metis prod.exhaust)
    from subchecks_untraced[OF sl] have su: "subchecks_loop check 0 s = (r, s1)" .
    show ?thesis
    proof (cases "r = Inr False")
      case False
      with True sl su "1.prems" show ?thesis by (cases r) auto
    next
      case f: True
      with True sl "1.prems" have "checks_loop (traced check) (Suc c) (s1, tr1) = (res, (s', tr'))" by simp
      from "1.IH"[OF True su[symmetric] f _ this]
      have "checks_loop check (Suc c) s1 = (res, s')" by simp
      with True su f show ?thesis by simp
    qed
  qed
qed

text \<open>
  C8. \<open>waitConditionStable\<close> is a total function, so it always stops. Let \<open>tr\<close> be the
  outcomes of the invocations of \<open>check\<close> in a run and \<open>res\<close> the result; keeping the
  trace does not change the run. Then
  \<^item> \<open>check\<close> is invoked at most 120 times;
  \<^item> if the result is nil, the last ten invocations all held without error;
  \<^item> no invocation but the last returned an error, and if the last did, that error is
    the result;
  \<^item> in every other case the result is the error \<open>timeout exceeded\<close>, after exactly
    twelve invocations that did not hold, one for each round.
\<close>

theorem waitConditionStable_bounded:
  assumes "waitConditionStable (traced check) (s, []) = (res, (s', tr))"
  shows "waitConditionStable check s = (res, s') \<and>
    length tr \<le> 120 \<and>
    (res = None \<longrightarrow> 10 \<le> length tr \<and> (\<forall>x\<in>set (drop (length tr - 10) tr). x = (True, None))) \<and>
    (\<forall>x\<in>set (butlast tr). snd x = None) \<and>
    (tr \<noteq> [] \<and> snd (last tr) \<noteq> None \<longrightarrow> res = snd (last tr)) \<and>
    (res \<noteq> None \<and> (\<forall>x\<in>set tr. snd x = None) \<longrightarrow>
       res = Some (Errorf ''timeout exceeded'' []) \<and> length (filter (\<lambda>x. \<not> fst x) tr) = 12)"
proof -
  from assms have c: "checks_loop (traced check) 0 (s, []) = (res, (s', tr))"
    by (simp add: waitConditionStable_def)
  from checks_trace[OF c] have "wait_outcome 12 res tr" by simp
  moreover from checks_untraced[OF c] have "waitConditionStable check s = (res, s')"
    by (simp add: waitConditionStable_def)
  ultimately show ?thesis by (simp add: wait_outcome_def)
qed

theorem waitConditionStable_bounded_witness:
  "waitConditionStable (traced never_ok) (0, [])
     = (Some (Errorf ''timeout exceeded'' []), (12, replicate 12 (False, None))) \<and>
   waitConditionStable never_ok 0 = (Some (Errorf ''timeout exceeded'' []), 12) \<and>
   length (replicate 12 (False, None :: go_error option)) \<le> 120 \<and>
   length (filter (\<lambda>x. \<not> fst x) (replicate 12 (False, None :: go_error option))) = 12"
proof -
  have h: "waitConditionStable (traced never_ok) (0, [])
     = (Some (Errorf ''timeout exceeded'' []), (12, replicate 12 (False, None)))"
    by (simp add: waitConditionStable_def traced_def never_ok_def numeral_eq_Suc)
  from waitConditionStable_bounded[OF h] h show ?thesis by simp
qed

subsection \<open>Bucket names\<close>

text \<open>
  C7. A bucket name of more than 63 or fewer than 3 bytes, or with a byte outside the
  class \<open>[0-9a-zA-Z-.]\<close>, is refused by \<open>validateS3BucketName\<close>, and
  \<open>resourceYandexStorageBucketCreate\<close> for that name returns the validation error with the
  resource data and the world as they were, the log of calls included: no call has been
  made. A name that meets the three conditions passes the validation. (A character
  beyond ASCII is several bytes, all outside the class.)
\<close>

theorem invalid_bucket_name_rejected:
  "(63 < length v \<or> length v < 3 \<or>
    (\<exists>c\<in>set v. \<not> ((CHR ''0'' \<le> c \<and> c \<le> CHR ''9'') \<or> (CHR ''a'' \<le> c \<and> c \<le> CHR ''z'') \<or>
                     (CHR ''A'' \<le> c \<and> c \<le> CHR ''Z'') \<or> c = CHR ''-'' \<or> c = CHR ''.'')) \<longrightarrow>
      (\<exists>e. validateS3BucketName v = Some e \<and>
           (\<forall>env d w. Create_bucket_name env d = v \<longrightarrow>
              resourceYandexStorageBucketCreate env d w
                = Inr (Some (Errorf ''error validating Storage Bucket name: %s'' [Inr e]), d, w)))) \<and>
   (length v \<le> 63 \<and> 3 \<le> length v \<and>
    (\<forall>c\<in>set v. (CHR ''0'' \<le> c \<and> c \<le> CHR ''9'') \<or> (CHR ''a'' \<le> c \<and> c \<le> CHR ''z'') \<or>
                (CHR ''A'' \<le> c \<and> c \<le> CHR ''Z'') \<or> c = CHR ''-'' \<or> c = CHR ''.'') \<longrightarrow>
      validateS3BucketName v = None)"
proof (intro conjI impI)
  assume bad: "63 < length v \<or> length v < 3 \<or>
    (\<exists>c\<in>set v. \<not> ((CHR ''0'' \<le> c \<and> c \<le> CHR ''9'') \<or> (CHR ''a'' \<le> c \<and> c \<le> CHR ''z'') \<or>
                     (CHR ''A'' \<le> c \<and> c \<le> CHR ''Z'') \<or> c = CHR ''-'' \<or> c = CHR ''.''))"
  then have "63 < length v \<or> length v < 3 \<or> \<not> bucket_name_regexp_MatchString v"
    by (auto simp: bucket_name_regexp_MatchString_def bucket_name_char_def list_all_iff)
  then have "validateS3BucketName v \<noteq> None"
    by (auto simp: validateS3BucketName_def)
  then obtain e where e: "validateS3BucketName v = Some e"
    by blast
  have "\<forall>env d w. Create_bucket_name env d = v \<longrightarrow>
              resourceYandexStorageBucketCreate env d w
                = Inr (Some (Errorf ''error validating Storage Bucket name: %s'' [Inr e]), d, w)"
    using e by (simp add: resourceYandexStorageBucketCreate_def)
  with e show "\<exists>e. validateS3BucketName v = Some e \<and>
           (\<forall>env d w. Create_bucket_name env d = v \<longrightarrow>
              resourceYandexStorageBucketCreate env d w
                = Inr (Some (Errorf ''error validating Storage Bucket name: %s'' [Inr e]), d, w))"
    by blast
next
  assume "length v \<le> 63 \<and> 3 \<le> length v \<and>
    (\<forall>c\<in>set v. (CHR ''0'' \<le> c \<and> c \<le> CHR ''9'') \<or> (CHR ''a'' \<le> c \<and> c \<le> CHR ''z'') \<or>
                (CHR ''A'' \<le> c \<and> c \<le> CHR ''Z'') \<or> c = CHR ''-'' \<or> c = CHR ''.'')"
  then show "validateS3BucketName v = None"
    by (auto simp: validateS3BucketName_def bucket_name_regexp_MatchString_def bucket_name_char_def
        list_all_iff)
qed

theorem invalid_bucket_name_rejected_witness:
  "length ''ab'' < 3 \<and>
   Create_bucket_name (quiet_env :: (unit, string) env) (new_bucket ''ab'') = ''ab'' \<and>
   resourceYandexStorageBucketCreate quiet_env (new_bucket ''ab'') no_calls
     = Inr (Some (Errorf ''error validating Storage Bucket name: %s''
                    [Inr (Errorf ''%q must contain at least 3 characters'' [Inl ''ab''])]),
            new_bucket ''ab'', no_calls) \<and>
   length ''my-bucket.01'' \<le> 63 \<and> 3 \<le> length ''my-bucket.01'' \<and>
   validateS3BucketName ''my-bucket.01'' = None"
proof -
  have n: "Create_bucket_name (quiet_env :: (unit, string) env) (new_bucket ''ab'') = ''ab''"
    by (simp add: Create_bucket_name_def d_GetOk_def d_Get_def new_bucket_def)
  have v: "validateS3BucketName ''ab'' = Some (Errorf ''%q must contain at least 3 characters'' [Inl ''ab''])"
    by (simp add: validateS3BucketName_def)
  have c: "\<forall>c\<in>set ''my-bucket.01''. (CHR ''0'' \<le> c \<and> c \<le> CHR ''9'') \<or> (CHR ''a'' \<le> c \<and> c \<le> CHR ''z'') \<or>
                (CHR ''A'' \<le> c \<and> c \<le> CHR ''Z'') \<or> c = CHR ''-'' \<or> c = CHR ''.''"
    by (simp add: less_eq_char_def)
  from invalid_bucket_name_rejected[of "''ab''"] v n
  have "resourceYandexStorageBucketCreate quiet_env (new_bucket ''ab'') no_calls
     = Inr (Some (Errorf ''error validating Storage Bucket name: %s''
                    [Inr (Errorf ''%q must contain at least 3 characters'' [Inl ''ab''])]),
            new_bucket ''ab'', no_calls)"
    by auto
  moreover from invalid_bucket_name_rejected[of "''my-bucket.01''"] c
  have "validateS3BucketName ''my-bucket.01'' = None" by simp
  ultimately show ?thesis using n by simp
qed

subsection \<open>JSON strings\<close>

text \<open>
  What \<open>NormalizeJsonString\<close> does with nil and with the empty string does not depend on
  the JSON library. Whether normalising twice gives the same as normalising once does:
  it holds when decoding an encoded value gives the value back, which is a property of
  \<open>encoding/json\<close> and of its formatting and parsing of \<open>float64\<close> numbers, not of the
  code at hand.
\<close>

lemma NormalizeJsonString_nil_or_empty:
  "NormalizeJsonString env None = Inr [] \<and> NormalizeJsonString env (Some []) = Inr []"
  by (simp add: NormalizeJsonString_def)

lemma NormalizeJsonString_twice:
  assumes "\<And>s j. json_Unmarshal env s = Inr j \<Longrightarrow> json_Unmarshal env (json_Marshal env j) = Inr j"
    and "NormalizeJsonString env (Some s) = Inr t"
  shows "NormalizeJsonString env (Some t) = Inr t"
proof (cases "s = []")
  case True
  with assms(2) show ?thesis by (simp add: NormalizeJsonString_def)
next
  case False
  with assms(2) obtain j where j: "json_Unmarshal env s = Inr j" and t: "t = json_Marshal env j"
    by (auto simp: NormalizeJsonString_def split: sum.splits)
  from assms(1)[OF j] t have "json_Unmarshal env t = Inr j" by simp
  with t show ?thesis by (simp add: NormalizeJsonString_def)
qed

end
